theory Spec2Isabelle
  imports Main "HOL-Library.Word"
begin

section \<open>Data model of the DocumentDB client\<close>

text \<open>
  Go's \<open>int\<close> (on 64-bit targets) and \<open>int64\<close> are 64-bit two's complement
  integers: arithmetic wraps, comparison is signed (\<open><s\<close>, \<open>\<le>s\<close>).
\<close>

type_synonym go_int = "64 word"
type_synonym int64 = "64 word"

text \<open>
  Modelled from the spec: the declaration of \<open>CosmosEndpoint\<close> is not among the
  source files; its fields are the ones the client code reads and writes
  (spec: Endpoint = name, url, isDefault, isUnavailable, unavailableSince).
\<close>

record CosmosEndpoint =
  EndpointName :: string
  EndpointURL :: string
  IsDefaultEndpoint :: bool
  IsUnavailable :: bool
  UnavailableTimestamp :: int64

text \<open>
  Modelled from the spec: the declaration of \<open>Config\<close> with its \<open>RetryOptions\<close> and
  \<open>RegionalOptions\<close> is not among the source files; the fields are the ones the
  client code reads (spec: retry count, endpoint-unavailable cooldown in seconds,
  preferred-location name, multi-write-location flag).
\<close>

record RetryOptions =
  RetryCount :: go_int
  EndpointUnavailableTimeSec :: go_int

record RegionalOptions =
  PreferredLocation :: string
  UseMultipleWriteLocations :: bool

record Config =
  RetryOptions :: RetryOptions
  RegionalOptions :: RegionalOptions

text \<open>
  The client. \<open>DefaultEndpoint\<close> is a pointer in the source; it is taken to be non-nil and
  to address an object of its own, apart from the elements of the two slices.
\<close>

record Client =
  Config :: Config
  DefaultEndpoint :: CosmosEndpoint
  ReadLocations :: "CosmosEndpoint list"
  WriteLocations :: "CosmosEndpoint list"

text \<open>
  Modelled from the spec: the declaration of \<open>EndpointType\<close> is not among the source
  files (spec: request intent, one of ReadOnly and ReadWrite).
\<close>

datatype EndpointType = EndpointType_ReadOnly | EndpointType_ReadWrite

text \<open>
  A \<open>*CosmosEndpoint\<close> as the client hands it out: the address of the default endpoint
  (\<open>c.DefaultEndpoint\<close>), of an element of the read slice (\<open>&c.ReadLocations[i]\<close>) or of
  an element of the write slice (\<open>&c.WriteLocations[i]\<close>). Reading and writing through
  the pointer reads and writes the client's state. An index beyond the slice addresses
  nothing: \<open>deref\<close> is \<open>None\<close> there.
\<close>

datatype endpoint_ref =
  DefaultEndpointRef
  | ReadLocationsRef nat
  | WriteLocationsRef nat

fun deref :: "Client \<Rightarrow> endpoint_ref \<Rightarrow> CosmosEndpoint option" where
  "deref c DefaultEndpointRef = Some (DefaultEndpoint c)"
| "deref c (ReadLocationsRef i) =
     (if i < length (ReadLocations c) then Some (ReadLocations c ! i) else None)"
| "deref c (WriteLocationsRef i) =
     (if i < length (WriteLocations c) then Some (WriteLocations c ! i) else None)"

fun assign :: "Client \<Rightarrow> endpoint_ref \<Rightarrow> CosmosEndpoint \<Rightarrow> Client" where
  "assign c DefaultEndpointRef e = c\<lparr>DefaultEndpoint := e\<rparr>"
| "assign c (ReadLocationsRef i) e = c\<lparr>ReadLocations := (ReadLocations c)[i := e]\<rparr>"
| "assign c (WriteLocationsRef i) e = c\<lparr>WriteLocations := (WriteLocations c)[i := e]\<rparr>"

section \<open>Health tracking\<close>

text \<open>
  \<open>markEndpointUnavailable\<close>: nothing happens to an endpoint flagged as the default one;
  any other endpoint is flagged unavailable and stamped with \<open>now\<close>, the value of
  \<open>time.Now().Unix()\<close> read at that moment. \<open>None\<close>: the pointer addresses nothing.
\<close>

definition markEndpointUnavailable :: "Client \<Rightarrow> int64 \<Rightarrow> endpoint_ref \<Rightarrow> Client option" where
  "markEndpointUnavailable c now endpoint =
     (case deref c endpoint of
        None \<Rightarrow> None
      | Some e \<Rightarrow>
          if IsDefaultEndpoint e then Some c
          else Some (assign c endpoint (e\<lparr>IsUnavailable := True, UnavailableTimestamp := now\<rparr>)))"

section \<open>Retry policy\<close>

text \<open>
  \<open>shouldRetry\<close> returns the decision and the client as it leaves it. The three tests
  run in the order of the source; the endpoint is only looked at when the attempt
  number equals the retry count (Go's \<open>&&\<close> evaluates its right operand only then).
\<close>

definition shouldRetry ::
  "Client \<Rightarrow> int64 \<Rightarrow> go_int \<Rightarrow> go_int \<Rightarrow> endpoint_ref \<Rightarrow> (bool \<times> Client) option" where
  "shouldRetry c now statusCode currentAttempt currentEndpoint =
     (if 400 \<le>s statusCode \<and> statusCode \<le>s 413 then Some (False, c)
      else if currentAttempt <s RetryCount (RetryOptions (Config c)) then Some (True, c)
      else if currentAttempt = RetryCount (RetryOptions (Config c)) then
        (case deref c currentEndpoint of
           None \<Rightarrow> None
         | Some e \<Rightarrow>
             if \<not> IsDefaultEndpoint e then
               (case markEndpointUnavailable c now currentEndpoint of
                  None \<Rightarrow> None
                | Some c' \<Rightarrow> Some (False, c'))
             else Some (False, c))
      else Some (False, c))"

section \<open>Self-healing\<close>

text \<open>
  \<open>purgeStaleEndpointUnavailability\<close>. Each of the two \<open>range\<close> loops visits the
  elements in order; an unavailable element makes one reading of the clock
  (\<open>time.Now().Unix()\<close>), an available one makes none. \<open>unix k\<close> is the value of the
  \<open>k\<close>-th reading made during the call, counted from 0; the loop returns the list and the
  number of readings made so far. The subtraction is the wrapping one of \<open>int64\<close>, the
  comparison is signed, and the conversion \<open>int64(...)\<close> of the threshold changes
  nothing on a 64-bit \<open>int\<close>. A round writes only the element it visits, so the later
  rounds read the elements as they were.
\<close>

fun purgeLoop ::
  "(nat \<Rightarrow> int64) \<Rightarrow> nat \<Rightarrow> go_int \<Rightarrow> CosmosEndpoint list \<Rightarrow> CosmosEndpoint list \<times> nat" where
  "purgeLoop unix k threshold [] = ([], k)"
| "purgeLoop unix k threshold (endpoint # rest) =
     (if IsUnavailable endpoint then
        (case purgeLoop unix (Suc k) threshold rest of
           (rest', k') \<Rightarrow>
             ((if threshold <s unix k - UnavailableTimestamp endpoint
               then endpoint\<lparr>IsUnavailable := False, UnavailableTimestamp := 0\<rparr>
               else endpoint) # rest', k'))
      else
        (case purgeLoop unix k threshold rest of
           (rest', k') \<Rightarrow> (endpoint # rest', k')))"

definition purgeStaleEndpointUnavailability :: "Client \<Rightarrow> (nat \<Rightarrow> int64) \<Rightarrow> Client" where
  "purgeStaleEndpointUnavailability c unix =
     (case purgeLoop unix 0 (EndpointUnavailableTimeSec (RetryOptions (Config c))) (ReadLocations c) of
        (reads, k) \<Rightarrow>
          (case purgeLoop unix k (EndpointUnavailableTimeSec (RetryOptions (Config c))) (WriteLocations c) of
             (writes, k') \<Rightarrow> c\<lparr>ReadLocations := reads, WriteLocations := writes\<rparr>))"

section \<open>Endpoint selection\<close>

text \<open>
  The \<open>range\<close> loops of \<open>getCosmosEndpoint\<close>: the index of the first element that passes
  the test, counted from \<open>i\<close>, if there is one.
\<close>

fun firstIndex :: "(CosmosEndpoint \<Rightarrow> bool) \<Rightarrow> nat \<Rightarrow> CosmosEndpoint list \<Rightarrow> nat option" where
  "firstIndex ok i [] = None"
| "firstIndex ok i (endpoint # rest) = (if ok endpoint then Some i else firstIndex ok (Suc i) rest)"

definition getCosmosEndpoint ::
  "Client \<Rightarrow> (nat \<Rightarrow> int64) \<Rightarrow> EndpointType \<Rightarrow> endpoint_ref \<times> Client" where
  "getCosmosEndpoint c unix endpointType =
     (let c' = purgeStaleEndpointUnavailability c unix in
      (case endpointType of
         EndpointType_ReadOnly \<Rightarrow>
           (case firstIndex (\<lambda>endpoint. \<not> IsUnavailable endpoint) 0 (ReadLocations c') of
              Some i \<Rightarrow> (ReadLocationsRef i, c')
            | None \<Rightarrow> (DefaultEndpointRef, c'))
       | EndpointType_ReadWrite \<Rightarrow>
           (case firstIndex
                   (\<lambda>endpoint. \<not> IsUnavailable endpoint \<and>
                      UseMultipleWriteLocations (RegionalOptions (Config c')))
                   0 (WriteLocations c') of
              Some i \<Rightarrow> (WriteLocationsRef i, c')
            | None \<Rightarrow> (DefaultEndpointRef, c'))))"

section \<open>The retry loop\<close>

text \<open>
  What \<open>c.Do\<close> returns: a response and no error, an error and no response, or both
  (the HTTP client never returns a nil response with a nil error). Serialisation is
  outside the client code:
  a body stands for what is decoded from it, so \<open>RequestError b\<close> is the
  \<open>*RequestError\<close> that \<open>readJson\<close> fills from the body \<open>b\<close>.
\<close>

record http_Response =
  StatusCode :: go_int
  Header :: string
  Body :: string

datatype go_error = TransportError string | RequestError string | DecodeError string

datatype http_result =
  Resp http_Response
  | Err go_error
  | RespErr http_Response go_error

fun respOf :: "http_result \<Rightarrow> http_Response option" where
  "respOf (Resp r) = Some r"
| "respOf (Err e) = None"
| "respOf (RespErr r e) = Some r"

fun errOf :: "http_result \<Rightarrow> go_error option" where
  "errOf (Resp r) = None"
| "errOf (Err e) = Some e"
| "errOf (RespErr r e) = Some e"

text \<open>
  What \<open>do\<close> returns, with what it leaves behind: the \<open>*Response\<close> (its header) or nil,
  the error or nil, the value decoded into \<open>data\<close> when \<open>readJson\<close> ran on it, the number
  of calls of \<open>c.Do\<close> made, and the client.
\<close>

record 'a do_return =
  ret_response :: "string option"
  ret_err :: "go_error option"
  ret_data :: "'a option"
  attempts :: nat
  ret_client :: Client

text \<open>
  The \<open>for\<close> loop of \<open>do\<close>, entered with the loop variables \<open>currentAttempt\<close> and
  \<open>responseStatusCode\<close> and after \<open>sent\<close> calls of \<open>c.Do\<close>. \<open>Do k\<close> is the outcome of
  the \<open>k\<close>-th call (from 0); \<open>data\<close> is \<open>None\<close> for a nil destination and otherwise the
  decoder of the destination: the error \<open>readJson\<close> returns and the value it stores.
  \<open>responseStatusCode\<close> is only overwritten when there is a response, so it keeps the
  status of an earlier attempt after a transport failure. \<open>shouldRetry\<close> reads the clock
  only in a call that answers false, which ends the loop: \<open>now\<close> is that one reading.
\<close>

function do_loop ::
  "Client \<Rightarrow> (nat \<Rightarrow> http_result) \<Rightarrow> (go_int \<Rightarrow> bool) \<Rightarrow> (string \<Rightarrow> go_error option \<times> 'a) option \<Rightarrow>
   endpoint_ref \<Rightarrow> int64 \<Rightarrow> go_int \<Rightarrow> go_int \<Rightarrow> nat \<Rightarrow> 'a do_return option" where
  "do_loop c Do validator data endpoint now currentAttempt responseStatusCode sent =
     (let resp = respOf (Do sent); err = errOf (Do sent) in
      if err = None \<and> (case resp of Some r \<Rightarrow> validator (StatusCode r) | None \<Rightarrow> False) then
        (case (data, resp) of
           (Some readJson, Some r) \<Rightarrow>
             Some \<lparr>ret_response = Some (Header r), ret_err = fst (readJson (Body r)),
                   ret_data = Some (snd (readJson (Body r))), attempts = Suc sent, ret_client = c\<rparr>
         | _ \<Rightarrow>
             Some \<lparr>ret_response = None, ret_err = None, ret_data = None,
                   attempts = Suc sent, ret_client = c\<rparr>)
      else
        (let responseStatusCode' =
               (case resp of Some r \<Rightarrow> StatusCode r | None \<Rightarrow> responseStatusCode);
             err' =
               (case resp of
                  Some r \<Rightarrow> if \<not> validator (StatusCode r) then Some (RequestError (Body r)) else err
                | None \<Rightarrow> err)
         in
           (case shouldRetry c now responseStatusCode' (currentAttempt + 1) endpoint of
              None \<Rightarrow> None
            | Some (retry, c') \<Rightarrow>
                if retry then
                  do_loop c' Do validator data endpoint now (currentAttempt + 1) responseStatusCode' (Suc sent)
                else
                  Some \<lparr>ret_response = None, ret_err = err', ret_data = None,
                        attempts = Suc sent, ret_client = c'\<rparr>)))"
  by pat_completeness auto

text \<open>
  The loop ends: it goes round again only when \<open>shouldRetry\<close> answers true, that is when
  the incremented attempt number is below the retry count, and each round brings
  the attempt number one step closer to the retry count (also from a starting value above
  it, through the wrap-around).
\<close>

lemma shouldRetry_True:
  "shouldRetry c now statusCode a ep = Some (True, c') \<Longrightarrow>
     c' = c \<and> a <s RetryCount (RetryOptions (Config c))"
  by (auto simp: shouldRetry_def split: if_splits option.splits)

lemma unat_pred_less: "(x :: 64 word) \<noteq> 0 \<Longrightarrow> unat (x - 1) < unat x"
  by (simp add: unat_minus_one unat_gt_0)

termination do_loop
proof (relation "measure (\<lambda>(c, Do, validator, data, endpoint, now, currentAttempt, responseStatusCode, sent).
          unat (RetryCount (RetryOptions (Config c)) - (currentAttempt + 1)))", goal_cases)
  case 1
  show ?case by simp
next
  case (2 c Do validator data endpoint now currentAttempt responseStatusCode sent resp err st err' x2 retry c')
  from 2 have eq: "shouldRetry c now st (currentAttempt + 1) endpoint = Some (True, c')"
    by auto
  from shouldRetry_True[OF eq] have c': "c' = c"
    and lt: "currentAttempt + 1 <s RetryCount (RetryOptions (Config c))" by simp_all
  from lt have "RetryCount (RetryOptions (Config c)) - (currentAttempt + 1) \<noteq> 0"
    by auto
  from unat_pred_less[OF this] show ?case
    by (simp add: c' algebra_simps)
qed

declare do_loop.simps [simp del]

text \<open>\<open>do\<close>: the loop entered with \<open>currentAttempt = 0\<close> and \<open>responseStatusCode = 0\<close>.\<close>

definition do ::
  "Client \<Rightarrow> (nat \<Rightarrow> http_result) \<Rightarrow> (go_int \<Rightarrow> bool) \<Rightarrow> (string \<Rightarrow> go_error option \<times> 'a) option \<Rightarrow>
   endpoint_ref \<Rightarrow> int64 \<Rightarrow> 'a do_return option" where
  "do c Do validator data endpoint now = do_loop c Do validator data endpoint now 0 0 0"

text \<open>
  \<open>method_call\<close> is the client's \<open>method\<close> (a name Isabelle reserves): the endpoint
  is selected once, before the request is built; \<open>prepare\<close> is the error of
  \<open>http.NewRequest\<close> or of \<open>apply\<close> (header construction, outside the client code),
  which ends the call before anything is sent.
\<close>

definition method_call ::
  "Client \<Rightarrow> string \<Rightarrow> (nat \<Rightarrow> int64) \<Rightarrow> go_error option \<Rightarrow> (nat \<Rightarrow> http_result) \<Rightarrow> (go_int \<Rightarrow> bool) \<Rightarrow>
   (string \<Rightarrow> go_error option \<times> 'a) option \<Rightarrow> int64 \<Rightarrow> 'a do_return option" where
  "method_call c httpMethod unix prepare Do validator data now =
     (case getCosmosEndpoint c unix
             (if httpMethod = ''GET'' then EndpointType_ReadOnly else EndpointType_ReadWrite) of
        (endpoint, c') \<Rightarrow>
          (case prepare of
             Some e \<Rightarrow>
               Some \<lparr>ret_response = None, ret_err = Some e, ret_data = None,
                     attempts = 0, ret_client = c'\<rparr>
           | None \<Rightarrow> do c' Do validator data endpoint now))"

section \<open>Rediscovery\<close>

text \<open>
  Modelled from the spec: the declaration of \<open>EndpointDescription\<close> is not among the
  source files (spec: region-discovery response with readable and writable
  locations).
\<close>

record EndpointDescription =
  ReadableLocations :: "CosmosEndpoint list"
  WritableLocations :: "CosmosEndpoint list"

text \<open>
  The reordering loop of \<open>GetRegionalEndpoints\<close>: the stored list starts as the received
  one; at every index \<open>i\<close> whose name is the preferred location it is rebuilt from the
  received list as element \<open>i\<close>, the elements before \<open>i\<close>, the elements after \<open>i\<close>.
\<close>

definition preferredFirst :: "string \<Rightarrow> CosmosEndpoint list \<Rightarrow> CosmosEndpoint list" where
  "preferredFirst prefLoc locations =
     foldl (\<lambda>stored i.
              if EndpointName (locations ! i) = prefLoc
              then [locations ! i] @ take i locations @ drop (i + 1) locations
              else stored)
       locations [0..<length locations]"

text \<open>
  \<open>GetRegionalEndpoints\<close> returns its error (or nil) and the client. \<open>prepare\<close> is the
  error of \<open>http.NewRequest\<close> or \<open>apply\<close>; \<open>expectStatusCode\<close> (its definition is not among
  the source files) and the decoder \<open>readJson\<close> of the description are parameters.
  The destination \<open>endpointResponseBody\<close> starts as the zero value.
\<close>

definition GetRegionalEndpoints ::
  "Client \<Rightarrow> go_error option \<Rightarrow> (go_int \<Rightarrow> go_int \<Rightarrow> bool) \<Rightarrow>
   (string \<Rightarrow> go_error option \<times> EndpointDescription) \<Rightarrow> (nat \<Rightarrow> http_result) \<Rightarrow> int64 \<Rightarrow>
   (go_error option \<times> Client) option" where
  "GetRegionalEndpoints c prepare expectStatusCode readJson Do now =
     (case prepare of
        Some e \<Rightarrow> Some (Some e, c)
      | None \<Rightarrow>
          (case do c Do (expectStatusCode 200) (Some readJson) DefaultEndpointRef now of
             None \<Rightarrow> None
           | Some r \<Rightarrow>
               (case ret_err r of
                  Some e \<Rightarrow> Some (Some e, ret_client r)
                | None \<Rightarrow>
                    (let endpointResponseBody =
                           (case ret_data r of
                              Some d \<Rightarrow> d
                            | None \<Rightarrow> \<lparr>ReadableLocations = [], WritableLocations = []\<rparr>);
                         prefLoc = PreferredLocation (RegionalOptions (Config (ret_client r)))
                     in Some (None,
                          (ret_client r)
                            \<lparr>ReadLocations := preferredFirst prefLoc (ReadableLocations endpointResponseBody),
                             WriteLocations := preferredFirst prefLoc (WritableLocations endpointResponseBody)\<rparr>)))))"

section \<open>Histories of a client\<close>

text \<open>
  What can happen to a client between two observations: an endpoint is quarantined, stale
  quarantines are purged, an endpoint is selected, a request goes through
  \<open>method_call\<close> (selection, then the retry loop). Each operation carries what the outside world
  contributes to it (clock readings, outcomes of the transport).
\<close>

datatype 'a operation =
  Quarantine endpoint_ref int64
  | Purge "nat \<Rightarrow> int64"
  | Select EndpointType "nat \<Rightarrow> int64"
  | Request string "nat \<Rightarrow> int64" "go_error option" "nat \<Rightarrow> http_result" "go_int \<Rightarrow> bool"
      "(string \<Rightarrow> go_error option \<times> 'a) option" int64

fun perform :: "Client \<Rightarrow> 'a operation \<Rightarrow> Client option" where
  "perform c (Quarantine endpoint now) = markEndpointUnavailable c now endpoint"
| "perform c (Purge unix) = Some (purgeStaleEndpointUnavailability c unix)"
| "perform c (Select endpointType unix) = Some (snd (getCosmosEndpoint c unix endpointType))"
| "perform c (Request httpMethod unix prepare Do validator data now) =
     map_option ret_client (method_call c httpMethod unix prepare Do validator data now)"

fun history :: "Client \<Rightarrow> 'a operation list \<Rightarrow> Client option" where
  "history c [] = Some c"
| "history c (x # xs) = (case perform c x of None \<Rightarrow> None | Some c' \<Rightarrow> history c' xs)"

section \<open>Example values\<close>

definition region :: "string \<Rightarrow> CosmosEndpoint" where
  "region name =
     \<lparr>EndpointName = name, EndpointURL = ''https://'' @ name, IsDefaultEndpoint = False,
      IsUnavailable = False, UnavailableTimestamp = 0\<rparr>"

definition exampleClient :: "go_int \<Rightarrow> Client" where
  "exampleClient retryCount =
     \<lparr>Config =
        \<lparr>RetryOptions = \<lparr>RetryCount = retryCount, EndpointUnavailableTimeSec = 10\<rparr>,
         RegionalOptions = \<lparr>PreferredLocation = ''west'', UseMultipleWriteLocations = True\<rparr>\<rparr>,
      DefaultEndpoint = (region ''global'')\<lparr>IsDefaultEndpoint := True\<rparr>,
      ReadLocations = [region ''east'', region ''west''],
      WriteLocations = [region ''east'']\<rparr>"

definition answer :: "go_int \<Rightarrow> nat \<Rightarrow> http_Response" where
  "answer status k = \<lparr>StatusCode = status, Header = ''h'', Body = ''attempt'' @ replicate k CHR ''+''\<rparr>"

definition answers :: "go_int \<Rightarrow> nat \<Rightarrow> http_result" where
  "answers status k = Resp (answer status k)"

definition expect200 :: "go_int \<Rightarrow> bool" where
  "expect200 status = (status = 200)"

text \<open>A clock that reads \<open>t\<close> at every reading: a call made at the time \<open>t\<close>.\<close>

definition at_time :: "int64 \<Rightarrow> nat \<Rightarrow> int64" where
  "at_time t k = t"

definition quarantinedExample :: Client where
  "quarantinedExample =
     (exampleClient 3)\<lparr>ReadLocations :=
        [(region ''east'')\<lparr>IsUnavailable := True, UnavailableTimestamp := 100\<rparr>, region ''west'']\<rparr>"

definition expectStatus :: "go_int \<Rightarrow> go_int \<Rightarrow> bool" where
  "expectStatus code status = (status = code)"

definition decodeExample :: "string \<Rightarrow> go_error option \<times> EndpointDescription" where
  "decodeExample body =
     (None, \<lparr>ReadableLocations = [region ''east'', region ''west''],
             WritableLocations = [region ''east'']\<rparr>)"

definition exampleHistory :: "unit operation list" where
  "exampleHistory =
     [Request ''GET'' (at_time 100) None (answers 503) expect200 None 100,
      Quarantine DefaultEndpointRef 101,
      Purge (at_time 105),
      Select EndpointType_ReadOnly (at_time 105)]"

section \<open>Auxiliary notions\<close>

text \<open>
  What one round of the purge loop does to its element when the clock reads \<open>now\<close>;
  used to describe \<open>purgeLoop\<close> in the proofs.
\<close>

definition purgeOne :: "int64 \<Rightarrow> go_int \<Rightarrow> CosmosEndpoint \<Rightarrow> CosmosEndpoint" where
  "purgeOne now threshold endpoint =
     (if IsUnavailable endpoint \<and> threshold <s now - UnavailableTimestamp endpoint
      then endpoint\<lparr>IsUnavailable := False, UnavailableTimestamp := 0\<rparr>
      else endpoint)"

text \<open>
  One round of the loop of \<open>do\<close>, in three parts: whether the attempt is the happy path,
  the value of \<open>responseStatusCode\<close> after it, and the error \<open>err\<close> after it.
\<close>

definition succeeded :: "(go_int \<Rightarrow> bool) \<Rightarrow> http_result \<Rightarrow> bool" where
  "succeeded validator out =
     (errOf out = None \<and> (case respOf out of Some r \<Rightarrow> validator (StatusCode r) | None \<Rightarrow> False))"

definition statusAfter :: "go_int \<Rightarrow> http_result \<Rightarrow> go_int" where
  "statusAfter responseStatusCode out =
     (case respOf out of Some r \<Rightarrow> StatusCode r | None \<Rightarrow> responseStatusCode)"

definition errAfter :: "(go_int \<Rightarrow> bool) \<Rightarrow> http_result \<Rightarrow> go_error option" where
  "errAfter validator out =
     (case respOf out of
        Some r \<Rightarrow> if \<not> validator (StatusCode r) then Some (RequestError (Body r)) else errOf out
      | None \<Rightarrow> errOf out)"

text \<open>
  Two clients have the same shape when their lists have the same lengths: the same
  pointers address an endpoint in both. An operation is addressable when the pointer it
  quarantines addresses an endpoint.
\<close>

definition same_shape :: "Client \<Rightarrow> Client \<Rightarrow> bool" where
  "same_shape c c' =
     (length (ReadLocations c') = length (ReadLocations c) \<and>
      length (WriteLocations c') = length (WriteLocations c))"

fun addressable :: "Client \<Rightarrow> 'a operation \<Rightarrow> bool" where
  "addressable c (Quarantine endpoint now) = (deref c endpoint \<noteq> None)"
| "addressable c x = True"

section \<open>Properties of the retry policy\<close>

text \<open>
  Claim C1. For every status code from 400 to 413, every attempt number and every
  endpoint, \<open>shouldRetry\<close> answers false and leaves the client as it is. In the loop of
  \<open>do\<close>, an attempt that is not a success and whose response carries such a status is the
  last one: the loop returns after it, with the error decoded from that response (or the
  transport's error when the validator accepts the status), whatever the attempt number.
\<close>

theorem shouldRetry_never_400_to_413:
  assumes "400 \<le>s statusCode" and "statusCode \<le>s 413"
  shows "shouldRetry c now statusCode currentAttempt endpoint = Some (False, c) \<and>
         (\<forall>Do validator data responseStatusCode sent r.
            respOf (Do sent) = Some r \<and> StatusCode r = statusCode \<and>
            \<not> (errOf (Do sent) = None \<and> validator statusCode) \<longrightarrow>
            do_loop c Do validator (data :: (string \<Rightarrow> go_error option \<times> 'a) option) endpoint now
                currentAttempt responseStatusCode sent =
              Some \<lparr>ret_response = None,
                    ret_err = (if \<not> validator statusCode then Some (RequestError (Body r))
                               else errOf (Do sent)),
                    ret_data = None, attempts = Suc sent, ret_client = c\<rparr>)"
proof -
  have sr: "\<And>a. shouldRetry c now statusCode a endpoint = Some (False, c)"
    using assms by (simp add: shouldRetry_def)
  show ?thesis
  proof (intro conjI allI impI)
    show "shouldRetry c now statusCode currentAttempt endpoint = Some (False, c)" by (rule sr)
  next
    fix Do :: "nat \<Rightarrow> http_result" and validator
      and data :: "(string \<Rightarrow> go_error option \<times> 'a) option"
      and responseStatusCode sent r
    assume h: "respOf (Do sent) = Some r \<and> StatusCode r = statusCode \<and>
            \<not> (errOf (Do sent) = None \<and> validator statusCode)"
    then show "do_loop c Do validator data endpoint now currentAttempt responseStatusCode sent =
              Some \<lparr>ret_response = None,
                    ret_err = (if \<not> validator statusCode then Some (RequestError (Body r))
                               else errOf (Do sent)),
                    ret_data = None, attempts = Suc sent, ret_client = c\<rparr>"
      by (subst do_loop.simps) (auto simp: Let_def sr)
  qed
qed

theorem shouldRetry_never_400_to_413_witness:
  "(400 :: go_int) \<le>s 404 \<and> (404 :: go_int) \<le>s 413 \<and>
   shouldRetry (exampleClient 3) 1000 404 1 (ReadLocationsRef 0) = Some (False, exampleClient 3) \<and>
   do (exampleClient 3) (answers 404) expect200
      (None :: (string \<Rightarrow> go_error option \<times> unit) option) (ReadLocationsRef 0) 1000 =
     Some \<lparr>ret_response = None, ret_err = Some (RequestError ''attempt''), ret_data = None,
           attempts = 1, ret_client = exampleClient 3\<rparr>"
  using shouldRetry_never_400_to_413 [of 404 "exampleClient 3" 1000 0 "ReadLocationsRef 0",
      THEN conjunct2, rule_format, of "answers 404" 0 _ expect200 None 0]
    shouldRetry_never_400_to_413 [of 404 "exampleClient 3" 1000 1 "ReadLocationsRef 0", THEN conjunct1]
  by (simp add: do_def answers_def answer_def expect200_def)

text \<open>
  Claim C2. For every status code outside 400 to 413 (0, the status of a transport
  failure, among them) and every endpoint of the client, \<open>shouldRetry\<close> answers true
  exactly when the attempt number is below \<open>RetryCount\<close>, and false whenever the attempt
  number is greater than or equal to it.
\<close>

theorem shouldRetry_outside_400_to_413:
  assumes "\<not> (400 \<le>s statusCode \<and> statusCode \<le>s 413)"
    and "deref c endpoint \<noteq> None"
  shows "(\<exists>c'. shouldRetry c now statusCode currentAttempt endpoint =
            Some (currentAttempt <s RetryCount (RetryOptions (Config c)), c')) \<and>
         (currentAttempt <s RetryCount (RetryOptions (Config c)) \<longrightarrow>
            shouldRetry c now statusCode currentAttempt endpoint = Some (True, c)) \<and>
         (RetryCount (RetryOptions (Config c)) \<le>s currentAttempt \<longrightarrow>
            (\<exists>c'. shouldRetry c now statusCode currentAttempt endpoint = Some (False, c')))"
  using assms
  by (auto simp: shouldRetry_def markEndpointUnavailable_def split: option.splits)

theorem shouldRetry_outside_400_to_413_witness:
  "\<not> (400 \<le>s (0 :: go_int) \<and> (0 :: go_int) \<le>s 413) \<and>
   deref (exampleClient 3) (ReadLocationsRef 1) \<noteq> None \<and>
   (2 :: go_int) <s RetryCount (RetryOptions (Config (exampleClient 3))) \<and>
   shouldRetry (exampleClient 3) 1000 0 2 (ReadLocationsRef 1) = Some (True, exampleClient 3) \<and>
   RetryCount (RetryOptions (Config (exampleClient 3))) \<le>s 4 \<and>
   shouldRetry (exampleClient 3) 1000 0 4 (ReadLocationsRef 1) = Some (False, exampleClient 3)"
proof -
  have h1: "\<not> (400 \<le>s (0 :: go_int) \<and> (0 :: go_int) \<le>s 413)"
    by (simp add: word_sle_eq)
  have h2: "deref (exampleClient 3) (ReadLocationsRef 1) \<noteq> None"
    by (simp add: exampleClient_def)
  have h3: "(2 :: go_int) <s RetryCount (RetryOptions (Config (exampleClient 3)))"
    by (simp add: exampleClient_def)
  have h4: "RetryCount (RetryOptions (Config (exampleClient 3))) \<le>s 4"
    by (simp add: exampleClient_def)
  have t: "shouldRetry (exampleClient 3) 1000 0 2 (ReadLocationsRef 1) = Some (True, exampleClient 3)"
    using shouldRetry_outside_400_to_413 [OF h1 h2, of 1000 2] h3 by blast
  from shouldRetry_outside_400_to_413 [OF h1 h2, of 1000 4] h4
  obtain c' where "shouldRetry (exampleClient 3) 1000 0 4 (ReadLocationsRef 1) = Some (False, c')"
    by blast
  moreover have "shouldRetry (exampleClient 3) 1000 0 4 (ReadLocationsRef 1) \<noteq> None \<longrightarrow>
      shouldRetry (exampleClient 3) 1000 0 4 (ReadLocationsRef 1) = Some (False, exampleClient 3)"
    by (simp add: shouldRetry_def exampleClient_def word_sle_eq)
  ultimately have f: "shouldRetry (exampleClient 3) 1000 0 4 (ReadLocationsRef 1) = Some (False, exampleClient 3)"
    by simp
  from h1 h2 h3 h4 t f show ?thesis by blast
qed

section \<open>Properties of the purge\<close>

lemma purgeLoop_length: "length (fst (purgeLoop unix k threshold xs)) = length xs"
  by (induction xs arbitrary: k) (simp_all add: case_prod_beta)

lemma purgeLoop_fixed_time:
  "fst (purgeLoop (\<lambda>_. t) k threshold xs) = map (purgeOne t threshold) xs"
  by (induction xs arbitrary: k) (simp_all add: purgeOne_def case_prod_beta)

lemma purgeLoop_nth:
  "i < length xs \<Longrightarrow>
     \<exists>j. fst (purgeLoop unix k threshold xs) ! i = purgeOne (unix j) threshold (xs ! i)"
proof (induction xs arbitrary: k i)
  case Nil
  then show ?case by simp
next
  case (Cons x xs)
  show ?case
  proof (cases i)
    case 0
    then show ?thesis
      by (auto simp: purgeOne_def case_prod_beta)
  next
    case (Suc i')
    with Cons.prems have "i' < length xs" by simp
    from Cons.IH[OF this] Suc show ?thesis
      by (simp add: case_prod_beta)
  qed
qed

lemma purgeOne_available: "\<not> IsUnavailable e \<Longrightarrow> purgeOne t threshold e = e"
  by (simp add: purgeOne_def)

lemma purgeOne_idem: "purgeOne t threshold (purgeOne t threshold e) = purgeOne t threshold e"
  by (simp add: purgeOne_def)

lemma purge_fixed_time:
  "purgeStaleEndpointUnavailability c (\<lambda>_. t) =
     c\<lparr>ReadLocations := map (purgeOne t (EndpointUnavailableTimeSec (RetryOptions (Config c)))) (ReadLocations c),
       WriteLocations := map (purgeOne t (EndpointUnavailableTimeSec (RetryOptions (Config c)))) (WriteLocations c)\<rparr>"
  by (simp add: purgeStaleEndpointUnavailability_def case_prod_beta purgeLoop_fixed_time)

lemma at_time_const: "at_time t = (\<lambda>_. t)"
  by (simp add: at_time_def fun_eq_iff)

lemma purge_Config [simp]: "Config (purgeStaleEndpointUnavailability c unix) = Config c"
  by (simp add: purgeStaleEndpointUnavailability_def case_prod_beta)

lemma purge_DefaultEndpoint [simp]:
  "DefaultEndpoint (purgeStaleEndpointUnavailability c unix) = DefaultEndpoint c"
  by (simp add: purgeStaleEndpointUnavailability_def case_prod_beta)

lemma purge_ReadLocations:
  "ReadLocations (purgeStaleEndpointUnavailability c unix) =
     fst (purgeLoop unix 0 (EndpointUnavailableTimeSec (RetryOptions (Config c))) (ReadLocations c))"
  by (simp add: purgeStaleEndpointUnavailability_def case_prod_beta)

lemma purge_WriteLocations:
  "\<exists>k. WriteLocations (purgeStaleEndpointUnavailability c unix) =
     fst (purgeLoop unix k (EndpointUnavailableTimeSec (RetryOptions (Config c))) (WriteLocations c))"
  by (auto simp add: purgeStaleEndpointUnavailability_def case_prod_beta)

lemma purgeLoop_keeps_available:
  assumes "i < length xs" and "\<not> IsUnavailable (xs ! i)"
  shows "fst (purgeLoop unix k threshold xs) ! i = xs ! i"
  using purgeLoop_nth[OF assms(1), of unix k threshold] assms(2)
  by (auto simp: purgeOne_available)

lemma sint_diff_times:
  assumes "0 \<le>s (T :: int64)" and "T \<le>s now"
  shows "sint (now - T) = sint now - sint T"
proof -
  have b: "sint now < 2 ^ 63" using sint_lt[of now] by simp
  from assms have "0 \<le> sint T" "sint T \<le> sint now" by (simp_all add: word_sle_eq)
  with b have "- (2 ^ 63) \<le> sint now - sint T" "sint now - sint T < 2 ^ 63" by simp_all
  then show ?thesis
    by (simp add: sint_word_ariths signed_take_bit_int_eq_self)
qed

lemma deref_assign:
  "deref c endpoint = Some e0 \<Longrightarrow> deref (assign c endpoint e) endpoint = Some e"
  by (cases endpoint) (auto split: if_splits)

lemma purge_fixed_deref:
  assumes "endpoint \<noteq> DefaultEndpointRef" and "deref c endpoint = Some e"
  shows "deref (purgeStaleEndpointUnavailability c (at_time t)) endpoint =
           Some (purgeOne t (EndpointUnavailableTimeSec (RetryOptions (Config c))) e)"
  using assms
  by (cases endpoint) (auto simp: at_time_const purge_fixed_time split: if_splits)

lemma assign_Config [simp]: "Config (assign c endpoint e) = Config c"
  by (cases endpoint) auto

text \<open>
  Claim C6, as the code has it. An endpoint of the read or write list is quarantined at
  the time \<open>T\<close> (a Unix time, not negative) and the cooldown is \<open>C\<close> seconds. A purge at
  a time \<open>now\<close> (not before \<open>T\<close>) with \<open>now > T + C\<close> resets its \<open>IsUnavailable\<close> to false
  and its timestamp to 0; a purge at a time \<open>now \<le> T + C\<close> leaves it quarantined, with
  its timestamp. The test of the code is strict: at \<open>now = T + C\<close> exactly the endpoint
  stays quarantined.
\<close>

theorem purge_restores_after_cooldown:
  assumes "endpoint \<noteq> DefaultEndpointRef"
    and "deref c endpoint = Some e" and "\<not> IsDefaultEndpoint e"
    and "markEndpointUnavailable c T endpoint = Some c1"
    and "0 \<le>s T" and "T \<le>s now"
  shows "(sint T + sint (EndpointUnavailableTimeSec (RetryOptions (Config c))) < sint now \<longrightarrow>
            deref (purgeStaleEndpointUnavailability c1 (at_time now)) endpoint =
              Some (e\<lparr>IsUnavailable := False, UnavailableTimestamp := 0\<rparr>)) \<and>
         (sint now \<le> sint T + sint (EndpointUnavailableTimeSec (RetryOptions (Config c))) \<longrightarrow>
            deref (purgeStaleEndpointUnavailability c1 (at_time now)) endpoint =
              Some (e\<lparr>IsUnavailable := True, UnavailableTimestamp := T\<rparr>))"
proof -
  let ?q = "e\<lparr>IsUnavailable := True, UnavailableTimestamp := T\<rparr>"
  from assms(2,3,4) have c1: "c1 = assign c endpoint ?q"
    by (simp add: markEndpointUnavailable_def)
  have d1: "deref c1 endpoint = Some ?q"
    unfolding c1 by (rule deref_assign[OF assms(2)])
  have cfg: "Config c1 = Config c" by (simp add: c1)
  have p: "deref (purgeStaleEndpointUnavailability c1 (at_time now)) endpoint =
      Some (purgeOne now (EndpointUnavailableTimeSec (RetryOptions (Config c))) ?q)"
    using purge_fixed_deref[OF assms(1) d1, of now] by (simp add: cfg)
  have d: "sint (now - T) = sint now - sint T"
    by (rule sint_diff_times[OF assms(5,6)])
  show ?thesis
    unfolding p by (auto simp: purgeOne_def word_sless_alt d)
qed

theorem purge_restores_after_cooldown_witness:
  "ReadLocationsRef 0 \<noteq> DefaultEndpointRef \<and>
   deref (exampleClient 3) (ReadLocationsRef 0) = Some (region ''east'') \<and>
   \<not> IsDefaultEndpoint (region ''east'') \<and>
   markEndpointUnavailable (exampleClient 3) 100 (ReadLocationsRef 0) = Some quarantinedExample \<and>
   (0 :: int64) \<le>s 100 \<and> (100 :: int64) \<le>s 111 \<and> (100 :: int64) \<le>s 105 \<and>
   sint (100 :: int64) + sint (EndpointUnavailableTimeSec (RetryOptions (Config (exampleClient 3)))) < sint (111 :: int64) \<and>
   deref (purgeStaleEndpointUnavailability quarantinedExample (at_time 111)) (ReadLocationsRef 0) =
     Some ((region ''east'')\<lparr>IsUnavailable := False, UnavailableTimestamp := 0\<rparr>) \<and>
   sint (105 :: int64) \<le> sint (100 :: int64) + sint (EndpointUnavailableTimeSec (RetryOptions (Config (exampleClient 3)))) \<and>
   deref (purgeStaleEndpointUnavailability quarantinedExample (at_time 105)) (ReadLocationsRef 0) =
     Some ((region ''east'')\<lparr>IsUnavailable := True, UnavailableTimestamp := 100\<rparr>)"
proof -
  have h1: "ReadLocationsRef 0 \<noteq> DefaultEndpointRef" by simp
  have h2: "deref (exampleClient 3) (ReadLocationsRef 0) = Some (region ''east'')"
    by (simp add: exampleClient_def)
  have h3: "\<not> IsDefaultEndpoint (region ''east'')" by (simp add: region_def)
  have h4: "markEndpointUnavailable (exampleClient 3) 100 (ReadLocationsRef 0) = Some quarantinedExample"
    by (simp add: markEndpointUnavailable_def exampleClient_def quarantinedExample_def region_def)
  have h5: "(0 :: int64) \<le>s 100" by (simp add: word_sle_eq)
  have h6: "(100 :: int64) \<le>s 111" by simp
  have h6': "(100 :: int64) \<le>s 105" by simp
  have h7: "sint (100 :: int64) + sint (EndpointUnavailableTimeSec (RetryOptions (Config (exampleClient 3)))) < sint (111 :: int64)"
    by (simp add: exampleClient_def)
  have h8: "sint (105 :: int64) \<le> sint (100 :: int64) + sint (EndpointUnavailableTimeSec (RetryOptions (Config (exampleClient 3))))"
    by (simp add: exampleClient_def)
  from purge_restores_after_cooldown[OF h1 h2 h3 h4 h5 h6, THEN conjunct1, rule_format, OF h7]
    purge_restores_after_cooldown[OF h1 h2 h3 h4 h5 h6', THEN conjunct2, rule_format, OF h8]
    h1 h2 h3 h4 h5 h6 h6' h7 h8
  show ?thesis by blast
qed

text \<open>
  Claim C6 as stated (a purge at every time \<open>\<ge> T + C\<close> restores the endpoint) fails at
  \<open>now = T + C\<close>: quarantined at 100 with a cooldown of 10 seconds, the endpoint is still
  unavailable after a purge at 110.
\<close>

theorem purge_at_cooldown_end_counterexample:
  "markEndpointUnavailable (exampleClient 3) 100 (ReadLocationsRef 0) = Some quarantinedExample \<and>
   EndpointUnavailableTimeSec (RetryOptions (Config quarantinedExample)) = 10 \<and>
   sint (100 :: int64) + sint (10 :: go_int) \<le> sint (110 :: int64) \<and>
   IsUnavailable (ReadLocations (purgeStaleEndpointUnavailability quarantinedExample (at_time 110)) ! 0) \<and>
   UnavailableTimestamp
     (ReadLocations (purgeStaleEndpointUnavailability quarantinedExample (at_time 110)) ! 0) = 100"
  by (simp add: markEndpointUnavailable_def exampleClient_def quarantinedExample_def region_def
      at_time_const purge_fixed_time purgeOne_def)

text \<open>
  Claim C10. At a fixed time, purging twice gives the same client as purging once. And
  whatever the clock reads, the purge keeps the lengths of both lists and the default
  endpoint, and leaves every available endpoint as it is: it never turns \<open>IsUnavailable\<close>
  from false to true.
\<close>

theorem purge_idempotent_monotone:
  "purgeStaleEndpointUnavailability (purgeStaleEndpointUnavailability c (at_time t)) (at_time t) =
     purgeStaleEndpointUnavailability c (at_time t) \<and>
   (\<forall>unix.
      length (ReadLocations (purgeStaleEndpointUnavailability c unix)) = length (ReadLocations c) \<and>
      length (WriteLocations (purgeStaleEndpointUnavailability c unix)) = length (WriteLocations c) \<and>
      DefaultEndpoint (purgeStaleEndpointUnavailability c unix) = DefaultEndpoint c \<and>
      (\<forall>i < length (ReadLocations c).
         \<not> IsUnavailable (ReadLocations c ! i) \<longrightarrow>
           ReadLocations (purgeStaleEndpointUnavailability c unix) ! i = ReadLocations c ! i \<and>
           \<not> IsUnavailable (ReadLocations (purgeStaleEndpointUnavailability c unix) ! i)) \<and>
      (\<forall>i < length (WriteLocations c).
         \<not> IsUnavailable (WriteLocations c ! i) \<longrightarrow>
           WriteLocations (purgeStaleEndpointUnavailability c unix) ! i = WriteLocations c ! i \<and>
           \<not> IsUnavailable (WriteLocations (purgeStaleEndpointUnavailability c unix) ! i)))"
proof (intro conjI allI impI)
  show "purgeStaleEndpointUnavailability (purgeStaleEndpointUnavailability c (at_time t)) (at_time t) =
     purgeStaleEndpointUnavailability c (at_time t)"
    by (simp add: at_time_const purge_fixed_time purgeOne_idem)
next
  fix unix
  show "length (ReadLocations (purgeStaleEndpointUnavailability c unix)) = length (ReadLocations c)"
    by (simp add: purge_ReadLocations purgeLoop_length)
  show "length (WriteLocations (purgeStaleEndpointUnavailability c unix)) = length (WriteLocations c)"
    using purge_WriteLocations[of c unix] by (auto simp: purgeLoop_length)
  show "DefaultEndpoint (purgeStaleEndpointUnavailability c unix) = DefaultEndpoint c"
    by simp
next
  fix unix i
  assume "i < length (ReadLocations c)" and "\<not> IsUnavailable (ReadLocations c ! i)"
  then show r: "ReadLocations (purgeStaleEndpointUnavailability c unix) ! i = ReadLocations c ! i"
    by (simp add: purge_ReadLocations purgeLoop_keeps_available)
  from r \<open>\<not> IsUnavailable (ReadLocations c ! i)\<close>
  show "\<not> IsUnavailable (ReadLocations (purgeStaleEndpointUnavailability c unix) ! i)" by simp
next
  fix unix i
  assume "i < length (WriteLocations c)" and "\<not> IsUnavailable (WriteLocations c ! i)"
  then show w: "WriteLocations (purgeStaleEndpointUnavailability c unix) ! i = WriteLocations c ! i"
    using purge_WriteLocations[of c unix] by (auto simp: purgeLoop_keeps_available)
  from w \<open>\<not> IsUnavailable (WriteLocations c ! i)\<close>
  show "\<not> IsUnavailable (WriteLocations (purgeStaleEndpointUnavailability c unix) ! i)" by simp
qed

theorem purge_idempotent_monotone_witness:
  "purgeStaleEndpointUnavailability (purgeStaleEndpointUnavailability quarantinedExample (at_time 111)) (at_time 111) =
     purgeStaleEndpointUnavailability quarantinedExample (at_time 111) \<and>
   (1 :: nat) < length (ReadLocations quarantinedExample) \<and>
   \<not> IsUnavailable (ReadLocations quarantinedExample ! 1) \<and>
   ReadLocations (purgeStaleEndpointUnavailability quarantinedExample (at_time 111)) ! 1 =
     ReadLocations quarantinedExample ! 1 \<and>
   \<not> IsUnavailable (ReadLocations (purgeStaleEndpointUnavailability quarantinedExample (at_time 111)) ! 1) \<and>
   (0 :: nat) < length (WriteLocations quarantinedExample) \<and>
   \<not> IsUnavailable (WriteLocations quarantinedExample ! 0) \<and>
   WriteLocations (purgeStaleEndpointUnavailability quarantinedExample (at_time 111)) ! 0 =
     WriteLocations quarantinedExample ! 0 \<and>
   \<not> IsUnavailable (WriteLocations (purgeStaleEndpointUnavailability quarantinedExample (at_time 111)) ! 0)"
proof -
  have h1: "(1 :: nat) < length (ReadLocations quarantinedExample)"
    by (simp add: quarantinedExample_def)
  have h2: "\<not> IsUnavailable (ReadLocations quarantinedExample ! 1)"
    by (simp add: quarantinedExample_def region_def)
  have h3: "(0 :: nat) < length (WriteLocations quarantinedExample)"
    by (simp add: quarantinedExample_def exampleClient_def)
  have h4: "\<not> IsUnavailable (WriteLocations quarantinedExample ! 0)"
    by (simp add: quarantinedExample_def exampleClient_def region_def)
  note t = purge_idempotent_monotone [of quarantinedExample 111]
  from t have idem:
    "purgeStaleEndpointUnavailability (purgeStaleEndpointUnavailability quarantinedExample (at_time 111)) (at_time 111) =
     purgeStaleEndpointUnavailability quarantinedExample (at_time 111)"
    by (rule conjunct1)
  from t have r: "\<forall>i < length (ReadLocations quarantinedExample).
         \<not> IsUnavailable (ReadLocations quarantinedExample ! i) \<longrightarrow>
           ReadLocations (purgeStaleEndpointUnavailability quarantinedExample (at_time 111)) ! i =
             ReadLocations quarantinedExample ! i \<and>
           \<not> IsUnavailable (ReadLocations (purgeStaleEndpointUnavailability quarantinedExample (at_time 111)) ! i)"
    by blast
  from t have w: "\<forall>i < length (WriteLocations quarantinedExample).
         \<not> IsUnavailable (WriteLocations quarantinedExample ! i) \<longrightarrow>
           WriteLocations (purgeStaleEndpointUnavailability quarantinedExample (at_time 111)) ! i =
             WriteLocations quarantinedExample ! i \<and>
           \<not> IsUnavailable (WriteLocations (purgeStaleEndpointUnavailability quarantinedExample (at_time 111)) ! i)"
    by blast
  from r h1 h2 w h3 h4 idem show ?thesis by blast
qed

section \<open>Properties of endpoint selection\<close>

lemma firstIndex_Some:
  "(firstIndex ok k xs = Some n) =
     (\<exists>i<length xs. n = k + i \<and> ok (xs ! i) \<and> (\<forall>j<i. \<not> ok (xs ! j)))"
proof (induction xs arbitrary: k)
  case Nil
  then show ?case by simp
next
  case (Cons x xs)
  show ?case
  proof (cases "ok x")
    case True
    then show ?thesis by (auto intro: exI[of _ 0]) (metis gr_zeroI nth_Cons_0)
  next
    case False
    have "(\<exists>i<length xs. n = Suc k + i \<and> ok (xs ! i) \<and> (\<forall>j<i. \<not> ok (xs ! j))) =
          (\<exists>i<length (x # xs). n = k + i \<and> ok ((x # xs) ! i) \<and> (\<forall>j<i. \<not> ok ((x # xs) ! j)))"
      (is "?L = ?R")
    proof
      assume ?L
      then obtain i where i: "i < length xs" "n = Suc k + i" "ok (xs ! i)" "\<forall>j<i. \<not> ok (xs ! j)"
        by blast
      have "\<forall>j<Suc i. \<not> ok ((x # xs) ! j)"
        using i(4) False by (auto simp: nth_Cons split: nat.splits)
      with i show ?R by (intro exI[of _ "Suc i"]) simp
    next
      assume ?R
      then obtain i where i: "i < length (x # xs)" "n = k + i" "ok ((x # xs) ! i)"
        "\<forall>j<i. \<not> ok ((x # xs) ! j)" by blast
      with False obtain i' where i': "i = Suc i'" by (cases i) auto
      have "\<forall>j<i'. \<not> ok (xs ! j)"
        using i(4) i' by auto
      with i i' show ?L by (intro exI[of _ i']) simp
    qed
    with False Cons.IH[of "Suc k"] show ?thesis by simp
  qed
qed

lemma firstIndex_None:
  "(firstIndex ok k xs = None) = (\<forall>i<length xs. \<not> ok (xs ! i))"
  by (induction xs arbitrary: k) (auto simp: nth_Cons split: nat.splits)

text \<open>
  Claim C4. \<open>getCosmosEndpoint\<close> first purges the stale quarantines: the client it leaves
  is the purged one. For \<open>ReadOnly\<close> it returns the address of the first element of the
  purged read list that is not unavailable, and the default endpoint exactly when every
  element is unavailable. For \<open>ReadWrite\<close> it returns the address of the first element of
  the purged write list that is not unavailable, provided \<open>UseMultipleWriteLocations\<close> is
  set, and the default endpoint exactly when the flag is not set or every element is
  unavailable.
\<close>

theorem getCosmosEndpoint_first_available:
  "snd (getCosmosEndpoint c unix endpointType) = purgeStaleEndpointUnavailability c unix \<and>
   (let reads = ReadLocations (purgeStaleEndpointUnavailability c unix);
        writes = WriteLocations (purgeStaleEndpointUnavailability c unix);
        multi = UseMultipleWriteLocations (RegionalOptions (Config c))
    in
      ((fst (getCosmosEndpoint c unix EndpointType_ReadOnly) = ReadLocationsRef i) =
         (i < length reads \<and> \<not> IsUnavailable (reads ! i) \<and> (\<forall>j<i. IsUnavailable (reads ! j)))) \<and>
      ((fst (getCosmosEndpoint c unix EndpointType_ReadOnly) = DefaultEndpointRef) =
         (\<forall>j<length reads. IsUnavailable (reads ! j))) \<and>
      fst (getCosmosEndpoint c unix EndpointType_ReadOnly) \<noteq> WriteLocationsRef i \<and>
      ((fst (getCosmosEndpoint c unix EndpointType_ReadWrite) = WriteLocationsRef i) =
         (multi \<and> i < length writes \<and> \<not> IsUnavailable (writes ! i) \<and>
          (\<forall>j<i. IsUnavailable (writes ! j)))) \<and>
      ((fst (getCosmosEndpoint c unix EndpointType_ReadWrite) = DefaultEndpointRef) =
         (\<not> multi \<or> (\<forall>j<length writes. IsUnavailable (writes ! j)))) \<and>
      fst (getCosmosEndpoint c unix EndpointType_ReadWrite) \<noteq> ReadLocationsRef i)"
proof -
  let ?c' = "purgeStaleEndpointUnavailability c unix"
  let ?ro = "firstIndex (\<lambda>endpoint. \<not> IsUnavailable endpoint) 0 (ReadLocations ?c')"
  let ?rw = "firstIndex (\<lambda>endpoint. \<not> IsUnavailable endpoint \<and>
                UseMultipleWriteLocations (RegionalOptions (Config c))) 0 (WriteLocations ?c')"
  have s: "snd (getCosmosEndpoint c unix endpointType) = ?c'"
    by (cases endpointType) (simp_all add: getCosmosEndpoint_def Let_def split: option.splits)
  have ro: "fst (getCosmosEndpoint c unix EndpointType_ReadOnly) =
      (case ?ro of Some i \<Rightarrow> ReadLocationsRef i | None \<Rightarrow> DefaultEndpointRef)"
    by (simp add: getCosmosEndpoint_def Let_def split: option.splits)
  have rw: "fst (getCosmosEndpoint c unix EndpointType_ReadWrite) =
      (case ?rw of Some i \<Rightarrow> WriteLocationsRef i | None \<Rightarrow> DefaultEndpointRef)"
    by (simp add: getCosmosEndpoint_def Let_def split: option.splits)
  have ro1: "((case ?ro of Some i \<Rightarrow> ReadLocationsRef i | None \<Rightarrow> DefaultEndpointRef) = ReadLocationsRef i) =
      (?ro = Some i)" by (simp split: option.splits)
  have ro2: "((case ?ro of Some i \<Rightarrow> ReadLocationsRef i | None \<Rightarrow> DefaultEndpointRef) = DefaultEndpointRef) =
      (?ro = None)" by (simp split: option.splits)
  have rw1: "((case ?rw of Some i \<Rightarrow> WriteLocationsRef i | None \<Rightarrow> DefaultEndpointRef) = WriteLocationsRef i) =
      (?rw = Some i)" by (simp split: option.splits)
  have rw2: "((case ?rw of Some i \<Rightarrow> WriteLocationsRef i | None \<Rightarrow> DefaultEndpointRef) = DefaultEndpointRef) =
      (?rw = None)" by (simp split: option.splits)
  show ?thesis
    unfolding Let_def ro rw ro1 ro2 rw1 rw2 firstIndex_Some firstIndex_None s
    by (auto split: option.splits)
qed

theorem getCosmosEndpoint_first_available_witness:
  "snd (getCosmosEndpoint quarantinedExample (at_time 105) EndpointType_ReadOnly) =
     purgeStaleEndpointUnavailability quarantinedExample (at_time 105) \<and>
   fst (getCosmosEndpoint quarantinedExample (at_time 105) EndpointType_ReadOnly) = ReadLocationsRef 1 \<and>
   fst (getCosmosEndpoint quarantinedExample (at_time 105) EndpointType_ReadWrite) = WriteLocationsRef 0"
proof -
  note t = getCosmosEndpoint_first_available
    [of quarantinedExample "at_time 105" EndpointType_ReadOnly, unfolded Let_def]
  have p: "purgeStaleEndpointUnavailability quarantinedExample (at_time 105) = quarantinedExample"
    by (simp add: at_time_const purge_fixed_time purgeOne_def quarantinedExample_def
        exampleClient_def region_def)
  have r: "fst (getCosmosEndpoint quarantinedExample (at_time 105) EndpointType_ReadOnly) = ReadLocationsRef 1"
    using t [of 1, THEN conjunct2, THEN conjunct1] unfolding p
    by (simp add: quarantinedExample_def exampleClient_def region_def)
  have w: "fst (getCosmosEndpoint quarantinedExample (at_time 105) EndpointType_ReadWrite) = WriteLocationsRef 0"
    using t [of 0, THEN conjunct2, THEN conjunct2, THEN conjunct2, THEN conjunct2, THEN conjunct1]
    unfolding p
    by (simp add: quarantinedExample_def exampleClient_def region_def)
  from t [of 0, THEN conjunct1] r w show ?thesis by simp
qed

section \<open>Properties of the retry loop\<close>

lemma shouldRetry_total:
  "deref c ep \<noteq> None \<Longrightarrow> \<exists>b c'. shouldRetry c now st a ep = Some (b, c')"
  by (auto simp: shouldRetry_def markEndpointUnavailable_def split: option.splits)

lemma do_loop_success:
  "succeeded validator (Do n) \<Longrightarrow>
   do_loop c Do validator data endpoint now a st n =
     (case (data, respOf (Do n)) of
        (Some readJson, Some r) \<Rightarrow>
          Some \<lparr>ret_response = Some (Header r), ret_err = fst (readJson (Body r)),
                ret_data = Some (snd (readJson (Body r))), attempts = Suc n, ret_client = c\<rparr>
      | _ \<Rightarrow>
          Some \<lparr>ret_response = None, ret_err = None, ret_data = None,
                attempts = Suc n, ret_client = c\<rparr>)"
  by (subst do_loop.simps) (simp add: Let_def succeeded_def)

lemma do_loop_retry:
  "\<not> succeeded validator (Do n) \<Longrightarrow>
   shouldRetry c now (statusAfter st (Do n)) (a + 1) endpoint = Some (True, c') \<Longrightarrow>
   do_loop c Do validator data endpoint now a st n =
     do_loop c Do validator data endpoint now (a + 1) (statusAfter st (Do n)) (Suc n)"
  by (subst do_loop.simps, frule shouldRetry_True)
     (auto simp: Let_def succeeded_def statusAfter_def)

lemma do_loop_stop:
  "\<not> succeeded validator (Do n) \<Longrightarrow>
   shouldRetry c now (statusAfter st (Do n)) (a + 1) endpoint = Some (False, c') \<Longrightarrow>
   do_loop c Do validator data endpoint now a st n =
     Some \<lparr>ret_response = None, ret_err = errAfter validator (Do n), ret_data = None,
           attempts = Suc n, ret_client = c'\<rparr>"
  by (subst do_loop.simps) (auto simp: Let_def succeeded_def statusAfter_def errAfter_def)

lemma do_loop_fault:
  "\<not> succeeded validator (Do n) \<Longrightarrow>
   shouldRetry c now (statusAfter st (Do n)) (a + 1) endpoint = None \<Longrightarrow>
   do_loop c Do validator data endpoint now a st n = None"
  by (subst do_loop.simps) (auto simp: Let_def succeeded_def statusAfter_def)

lemma do_loop_induct [case_names success retry stop fault]:
  assumes "\<And>a st n. succeeded validator (Do n) \<Longrightarrow> P a st n"
    and "\<And>a st n. \<not> succeeded validator (Do n) \<Longrightarrow>
           shouldRetry c now (statusAfter st (Do n)) (a + 1) endpoint = Some (True, c) \<Longrightarrow>
           P (a + 1) (statusAfter st (Do n)) (Suc n) \<Longrightarrow> P a st n"
    and "\<And>a st n c'. \<not> succeeded validator (Do n) \<Longrightarrow>
           shouldRetry c now (statusAfter st (Do n)) (a + 1) endpoint = Some (False, c') \<Longrightarrow> P a st n"
    and "\<And>a st n. \<not> succeeded validator (Do n) \<Longrightarrow>
           shouldRetry c now (statusAfter st (Do n)) (a + 1) endpoint = None \<Longrightarrow> P a st n"
  shows "P a st n"
proof (induction "unat (RetryCount (RetryOptions (Config c)) - (a + 1))" arbitrary: a st n
    rule: less_induct)
  case (less a st n)
  show ?case
  proof (cases "succeeded validator (Do n)")
    case True
    then show ?thesis by (rule assms(1))
  next
    case False
    show ?thesis
    proof (cases "shouldRetry c now (statusAfter st (Do n)) (a + 1) endpoint")
      case None
      with False show ?thesis by (rule assms(4))
    next
      case (Some x)
      obtain retry c' where x: "x = (retry, c')" by (cases x)
      show ?thesis
      proof (cases retry)
        case True
        from Some x True have eq: "shouldRetry c now (statusAfter st (Do n)) (a + 1) endpoint = Some (True, c')"
          by simp
        from shouldRetry_True[OF eq] have c': "c' = c"
          and lt: "a + 1 <s RetryCount (RetryOptions (Config c))" by simp_all
        from lt have "RetryCount (RetryOptions (Config c)) - (a + 1) \<noteq> 0" by auto
        from unat_pred_less[OF this]
        have "unat (RetryCount (RetryOptions (Config c)) - (a + 1 + 1))
                < unat (RetryCount (RetryOptions (Config c)) - (a + 1))"
          by (simp add: algebra_simps)
        from less[OF this] have "P (a + 1) (statusAfter st (Do n)) (Suc n)" .
        with False eq[unfolded c'] show ?thesis by (rule assms(2))
      next
        case no: False
        with Some x have "shouldRetry c now (statusAfter st (Do n)) (a + 1) endpoint = Some (False, c')"
          by simp
        with False show ?thesis by (rule assms(3))
      qed
    qed
  qed
qed

lemma do_loop_total:
  assumes "deref c endpoint \<noteq> None"
  shows "\<exists>r. do_loop c Do validator data endpoint now a st n = Some r"
proof (induction a st n rule: do_loop_induct[of validator Do _ c now endpoint])
  case (success a st n)
  then show ?case by (simp add: do_loop_success split: option.splits)
next
  case (retry a st n)
  then show ?case by (simp add: do_loop_retry)
next
  case (stop a st n c')
  then show ?case by (simp add: do_loop_stop)
next
  case (fault a st n)
  with shouldRetry_total[OF assms] show ?case by (metis option.distinct(1))
qed

lemma do_loop_client:
  "do_loop c Do validator data endpoint now a st n = Some r \<Longrightarrow>
     ret_client r = c \<or> (\<exists>st' a'. shouldRetry c now st' a' endpoint = Some (False, ret_client r))"
proof (induction a st n rule: do_loop_induct[of validator Do _ c now endpoint])
  case (success a st n)
  then show ?case by (auto simp add: do_loop_success split: option.splits)
next
  case (retry a st n)
  then show ?case by (simp add: do_loop_retry)
next
  case (stop a st n c')
  then show ?case by (auto simp add: do_loop_stop)
next
  case (fault a st n)
  then show ?case by (simp add: do_loop_fault)
qed

lemma errAfter_Some: "\<not> succeeded validator out \<Longrightarrow> \<exists>e. errAfter validator out = Some e"
  by (cases out) (auto simp: succeeded_def errAfter_def)

lemma do_loop_no_error:
  "do_loop c Do validator (Some readJson) endpoint now a st n = Some r \<Longrightarrow> ret_err r = None \<Longrightarrow>
     \<exists>k resp. Do k = Resp resp \<and> validator (StatusCode resp) \<and> fst (readJson (Body resp)) = None \<and>
        ret_data r = Some (snd (readJson (Body resp))) \<and> ret_client r = c"
proof (induction a st n rule: do_loop_induct[of validator Do _ c now endpoint])
  case (success a st n)
  from success(1) obtain resp where "Do n = Resp resp" "validator (StatusCode resp)"
    by (cases "Do n") (auto simp: succeeded_def)
  with success show ?case by (auto simp add: do_loop_success intro!: exI[of _ n])
next
  case (retry a st n)
  then show ?case by (simp add: do_loop_retry)
next
  case (stop a st n c')
  with errAfter_Some[OF stop(1)] show ?case by (auto simp add: do_loop_stop)
next
  case (fault a st n)
  then show ?case by (simp add: do_loop_fault)
qed

text \<open>
  Claim C5. With \<open>RetryCount = 3\<close>, an endpoint that is not the default one and whose
  first three attempts each bring a response of status 503 (which the validator rejects),
  \<open>do\<close> makes exactly 3 attempts (the endpoint is its parameter: nothing is selected
  again), returns the error decoded from the third response, and leaves the client with
  that endpoint flagged unavailable and stamped with the clock's reading.
\<close>

theorem three_attempts_then_quarantine:
  assumes rc: "RetryCount (RetryOptions (Config c)) = 3"
    and d: "deref c endpoint = Some e" and nd: "\<not> IsDefaultEndpoint e"
    and resp: "\<forall>k<3. respOf (Do k) = Some (resp k) \<and> StatusCode (resp k) = 503"
    and nv: "\<not> validator 503"
  shows "do c Do validator data endpoint now =
           Some \<lparr>ret_response = None, ret_err = Some (RequestError (Body (resp 2))), ret_data = None,
                 attempts = 3,
                 ret_client = assign c endpoint (e\<lparr>IsUnavailable := True, UnavailableTimestamp := now\<rparr>)\<rparr> \<and>
         deref (assign c endpoint (e\<lparr>IsUnavailable := True, UnavailableTimestamp := now\<rparr>)) endpoint =
           Some (e\<lparr>IsUnavailable := True, UnavailableTimestamp := now\<rparr>)"
proof -
  let ?q = "e\<lparr>IsUnavailable := True, UnavailableTimestamp := now\<rparr>"
  have r: "respOf (Do k) = Some (resp k)" "StatusCode (resp k) = 503" if "k < 3" for k
    using resp that by simp_all
  have ns: "\<not> succeeded validator (Do k)" if "k < 3" for k
    using r[OF that] nv by (simp add: succeeded_def)
  have st: "statusAfter s (Do k) = 503" if "k < 3" for k s
    using r[OF that] by (simp add: statusAfter_def)
  have er: "errAfter validator (Do k) = Some (RequestError (Body (resp k)))" if "k < 3" for k
    using r[OF that] nv by (simp add: errAfter_def)
  have s1: "shouldRetry c now 503 1 endpoint = Some (True, c)"
    by (simp add: shouldRetry_def rc word_sless_alt)
  have s2: "shouldRetry c now 503 2 endpoint = Some (True, c)"
    by (simp add: shouldRetry_def rc)
  have s3: "shouldRetry c now 503 3 endpoint = Some (False, assign c endpoint ?q)"
    using d nd by (simp add: shouldRetry_def rc markEndpointUnavailable_def)
  have "do c Do validator data endpoint now = do_loop c Do validator data endpoint now 0 0 0"
    by (simp add: do_def)
  also have "\<dots> = do_loop c Do validator data endpoint now 1 503 1"
    using do_loop_retry[of validator Do 0 c now 0 0 endpoint c data] ns[of 0] st[of 0] s1 by simp
  also have "\<dots> = do_loop c Do validator data endpoint now 2 503 2"
    using do_loop_retry[of validator Do 1 c now 503 1 endpoint c data] ns[of 1] st[of 1] s2
    by (simp add: numeral_2_eq_2)
  also have "\<dots> = Some \<lparr>ret_response = None, ret_err = Some (RequestError (Body (resp 2))),
                 ret_data = None, attempts = 3, ret_client = assign c endpoint ?q\<rparr>"
    using do_loop_stop[of validator Do 2 c now 503 2 endpoint "assign c endpoint ?q" data]
      ns[of 2] st[of 2] s3 er[of 2]
    by (simp add: numeral_3_eq_3)
  finally show ?thesis using deref_assign[OF d] by simp
qed

theorem three_attempts_then_quarantine_witness:
  "do (exampleClient 3) (answers 503) expect200
      (None :: (string \<Rightarrow> go_error option \<times> unit) option) (ReadLocationsRef 0) 100 =
     Some \<lparr>ret_response = None, ret_err = Some (RequestError ''attempt++''), ret_data = None,
           attempts = 3, ret_client = quarantinedExample\<rparr> \<and>
   deref quarantinedExample (ReadLocationsRef 0) =
     Some ((region ''east'')\<lparr>IsUnavailable := True, UnavailableTimestamp := 100\<rparr>)"
proof -
  have h1: "RetryCount (RetryOptions (Config (exampleClient 3))) = 3"
    by (simp add: exampleClient_def)
  have h2: "deref (exampleClient 3) (ReadLocationsRef 0) = Some (region ''east'')"
    by (simp add: exampleClient_def)
  have h3: "\<not> IsDefaultEndpoint (region ''east'')" by (simp add: region_def)
  have h4: "\<forall>k<3. respOf (answers 503 k) = Some (answer 503 k) \<and> StatusCode (answer 503 k) = 503"
    by (simp add: answers_def answer_def)
  have h5: "\<not> expect200 503" by (simp add: expect200_def)
  have q: "assign (exampleClient 3) (ReadLocationsRef 0)
             ((region ''east'')\<lparr>IsUnavailable := True, UnavailableTimestamp := 100\<rparr>) = quarantinedExample"
    by (simp add: exampleClient_def quarantinedExample_def)
  have b: "Body (answer 503 2) = ''attempt++''"
    by (simp add: answer_def numeral_2_eq_2)
  have "do (exampleClient 3) (answers 503) expect200
          (None :: (string \<Rightarrow> go_error option \<times> unit) option) (ReadLocationsRef 0) 100 =
        Some \<lparr>ret_response = None, ret_err = Some (RequestError (Body (answer 503 2))), ret_data = None,
              attempts = 3,
              ret_client = assign (exampleClient 3) (ReadLocationsRef 0)
                ((region ''east'')\<lparr>IsUnavailable := True, UnavailableTimestamp := 100\<rparr>)\<rparr> \<and>
        deref (assign (exampleClient 3) (ReadLocationsRef 0)
                ((region ''east'')\<lparr>IsUnavailable := True, UnavailableTimestamp := 100\<rparr>))
          (ReadLocationsRef 0) =
          Some ((region ''east'')\<lparr>IsUnavailable := True, UnavailableTimestamp := 100\<rparr>)"
    by (rule three_attempts_then_quarantine
        [where c = "exampleClient 3" and endpoint = "ReadLocationsRef 0" and e = "region ''east''"
           and Do = "answers 503" and resp = "answer 503" and validator = expect200
           and data = None and now = 100, OF h1 h2 h3 h4 h5])
  then show ?thesis unfolding q b .
qed

text \<open>
  Claim C9. With \<open>RetryCount = 0\<close>, an operation whose first attempt fails makes exactly
  one attempt and leaves the client as it was, whatever the endpoint: the attempt number
  is 1 at the first call of \<open>shouldRetry\<close>, above the retry count. In general a call of
  \<open>shouldRetry\<close> with an attempt number other than \<open>RetryCount\<close> leaves the client (and so
  every endpoint's availability) unchanged.
\<close>

theorem no_retries_no_quarantine:
  "(RetryCount (RetryOptions (Config c)) = 0 \<and> \<not> succeeded validator (Do 0) \<longrightarrow>
      do c Do validator data endpoint now =
        Some \<lparr>ret_response = None, ret_err = errAfter validator (Do 0), ret_data = None,
              attempts = 1, ret_client = c\<rparr>) \<and>
   (currentAttempt \<noteq> RetryCount (RetryOptions (Config c)) \<and>
    shouldRetry c now statusCode currentAttempt endpoint = Some (retry, c') \<longrightarrow> c' = c)"
proof (intro conjI impI)
  assume h: "RetryCount (RetryOptions (Config c)) = 0 \<and> \<not> succeeded validator (Do 0)"
  then have "shouldRetry c now (statusAfter 0 (Do 0)) (0 + 1) endpoint = Some (False, c)"
    by (simp add: shouldRetry_def word_sless_alt)
  with do_loop_stop[of validator Do 0 c now 0 0 endpoint c data] h
  show "do c Do validator data endpoint now =
        Some \<lparr>ret_response = None, ret_err = errAfter validator (Do 0), ret_data = None,
              attempts = 1, ret_client = c\<rparr>"
    by (simp add: do_def)
next
  assume "currentAttempt \<noteq> RetryCount (RetryOptions (Config c)) \<and>
    shouldRetry c now statusCode currentAttempt endpoint = Some (retry, c')"
  then show "c' = c"
    by (auto simp: shouldRetry_def split: if_splits)
qed

theorem no_retries_no_quarantine_witness:
  "RetryCount (RetryOptions (Config (exampleClient 0))) = 0 \<and>
   \<not> succeeded expect200 (answers 503 0) \<and>
   do (exampleClient 0) (answers 503) expect200
      (None :: (string \<Rightarrow> go_error option \<times> unit) option) (ReadLocationsRef 0) 100 =
     Some \<lparr>ret_response = None, ret_err = Some (RequestError ''attempt''), ret_data = None,
           attempts = 1, ret_client = exampleClient 0\<rparr> \<and>
   (1 :: go_int) \<noteq> RetryCount (RetryOptions (Config (exampleClient 0))) \<and>
   shouldRetry (exampleClient 0) 100 503 1 (ReadLocationsRef 0) = Some (False, exampleClient 0)"
proof -
  have h1: "RetryCount (RetryOptions (Config (exampleClient 0))) = 0"
    by (simp add: exampleClient_def)
  have h2: "\<not> succeeded expect200 (answers 503 0)"
    by (simp add: succeeded_def answers_def answer_def expect200_def)
  have e: "errAfter expect200 (answers 503 0) = Some (RequestError ''attempt'')"
    by (simp add: errAfter_def answers_def answer_def expect200_def)
  note t = no_retries_no_quarantine
    [of "exampleClient 0" expect200 "answers 503" None "ReadLocationsRef 0" 100 1 503]
  from t [THEN conjunct1] h1 h2
  have d: "do (exampleClient 0) (answers 503) expect200
      (None :: (string \<Rightarrow> go_error option \<times> unit) option) (ReadLocationsRef 0) 100 =
     Some \<lparr>ret_response = None, ret_err = errAfter expect200 (answers 503 0), ret_data = None,
           attempts = 1, ret_client = exampleClient 0\<rparr>"
    by blast
  have h3: "(1 :: go_int) \<noteq> RetryCount (RetryOptions (Config (exampleClient 0)))"
    by (simp add: h1)
  have "\<exists>c'. shouldRetry (exampleClient 0) 100 503 1 (ReadLocationsRef 0) = Some (False, c')"
    by (simp add: shouldRetry_def h1 word_sless_alt)
  then obtain c' where s: "shouldRetry (exampleClient 0) 100 503 1 (ReadLocationsRef 0) = Some (False, c')"
    by blast
  from t [of False c', THEN conjunct2] h3 s have "c' = exampleClient 0" by blast
  with s have f: "shouldRetry (exampleClient 0) 100 503 1 (ReadLocationsRef 0) = Some (False, exampleClient 0)"
    by simp
  from h1 h2 d e h3 f show ?thesis by simp
qed

section \<open>The default endpoint is never quarantined\<close>

lemma mark_DefaultEndpoint:
  "IsDefaultEndpoint (DefaultEndpoint c) \<Longrightarrow> markEndpointUnavailable c now endpoint = Some c' \<Longrightarrow>
     DefaultEndpoint c' = DefaultEndpoint c"
  by (cases endpoint) (auto simp: markEndpointUnavailable_def split: option.splits if_splits)

lemma shouldRetry_DefaultEndpoint:
  "IsDefaultEndpoint (DefaultEndpoint c) \<Longrightarrow> shouldRetry c now st a endpoint = Some (b, c') \<Longrightarrow>
     DefaultEndpoint c' = DefaultEndpoint c"
  by (auto simp: shouldRetry_def split: option.splits if_splits dest: mark_DefaultEndpoint)

lemma do_loop_DefaultEndpoint:
  assumes "IsDefaultEndpoint (DefaultEndpoint c)"
    and "do_loop c Do validator data endpoint now a st n = Some r"
  shows "DefaultEndpoint (ret_client r) = DefaultEndpoint c"
  using do_loop_client[OF assms(2)] shouldRetry_DefaultEndpoint[OF assms(1)] by auto

lemma getCosmosEndpoint_snd:
  "snd (getCosmosEndpoint c unix endpointType) = purgeStaleEndpointUnavailability c unix"
  by (cases endpointType) (simp_all add: getCosmosEndpoint_def Let_def split: option.splits)

lemma method_call_DefaultEndpoint:
  assumes "IsDefaultEndpoint (DefaultEndpoint c)"
    and "method_call c httpMethod unix prepare Do validator data now = Some r"
  shows "DefaultEndpoint (ret_client r) = DefaultEndpoint c"
proof -
  obtain endpoint c' where g: "getCosmosEndpoint c unix
      (if httpMethod = ''GET'' then EndpointType_ReadOnly else EndpointType_ReadWrite) = (endpoint, c')"
    by (cases "getCosmosEndpoint c unix
      (if httpMethod = ''GET'' then EndpointType_ReadOnly else EndpointType_ReadWrite)")
  from getCosmosEndpoint_snd[of c unix "if httpMethod = ''GET'' then EndpointType_ReadOnly else EndpointType_ReadWrite"] g
  have c': "c' = purgeStaleEndpointUnavailability c unix" by simp
  then have d: "DefaultEndpoint c' = DefaultEndpoint c" by simp
  show ?thesis
  proof (cases prepare)
    case None
    with assms(2) g have "do_loop c' Do validator data endpoint now 0 0 0 = Some r"
      by (simp add: method_call_def do_def)
    from do_loop_DefaultEndpoint[OF _ this] assms(1) d show ?thesis by simp
  next
    case (Some e)
    with assms(2) g d show ?thesis by (auto simp: method_call_def)
  qed
qed

lemma perform_DefaultEndpoint:
  assumes "IsDefaultEndpoint (DefaultEndpoint c)" and "perform c x = Some c'"
  shows "DefaultEndpoint c' = DefaultEndpoint c"
proof (cases x)
  case (Quarantine endpoint now)
  with assms show ?thesis by (auto dest: mark_DefaultEndpoint)
next
  case (Purge unix)
  with assms show ?thesis by auto
next
  case (Select endpointType unix)
  with assms show ?thesis by (auto simp: getCosmosEndpoint_snd)
next
  case (Request httpMethod unix prepare Do validator data now)
  with assms show ?thesis by (auto dest: method_call_DefaultEndpoint)
qed

lemma history_DefaultEndpoint:
  "IsDefaultEndpoint (DefaultEndpoint c) \<Longrightarrow> history c xs = Some c' \<Longrightarrow>
     DefaultEndpoint c' = DefaultEndpoint c"
proof (induction xs arbitrary: c)
  case Nil
  then show ?case by simp
next
  case (Cons x xs)
  from Cons.prems(2) obtain c1 where p: "perform c x = Some c1" and h: "history c1 xs = Some c'"
    by (auto split: option.splits)
  from perform_DefaultEndpoint[OF Cons.prems(1) p] have d: "DefaultEndpoint c1 = DefaultEndpoint c" .
  with Cons.prems(1) have "IsDefaultEndpoint (DefaultEndpoint c1)" by simp
  from Cons.IH[OF this h] d show ?case by simp
qed

lemma same_shape_refl [simp]: "same_shape c c"
  by (simp add: same_shape_def)

lemma same_shape_deref:
  "same_shape c c' \<Longrightarrow> deref c endpoint \<noteq> None \<Longrightarrow> deref c' endpoint \<noteq> None"
  by (cases endpoint) (auto simp: same_shape_def split: if_splits)

lemma same_shape_trans: "same_shape c c1 \<Longrightarrow> same_shape c1 c2 \<Longrightarrow> same_shape c c2"
  by (simp add: same_shape_def)

lemma mark_shape: "markEndpointUnavailable c now endpoint = Some c' \<Longrightarrow> same_shape c c'"
  by (cases endpoint)
     (auto simp: markEndpointUnavailable_def same_shape_def split: option.splits if_splits)

lemma shouldRetry_shape: "shouldRetry c now st a endpoint = Some (b, c') \<Longrightarrow> same_shape c c'"
  by (auto simp: shouldRetry_def split: option.splits if_splits dest: mark_shape)

lemma do_loop_shape:
  assumes "do_loop c Do validator data endpoint now a st n = Some r"
  shows "same_shape c (ret_client r)"
  using do_loop_client[OF assms] by (auto dest: shouldRetry_shape)

lemma purge_shape: "same_shape c (purgeStaleEndpointUnavailability c unix)"
  using purge_WriteLocations[of c unix]
  by (auto simp: same_shape_def purge_ReadLocations purgeLoop_length)

lemma getCosmosEndpoint_addressable:
  "deref (snd (getCosmosEndpoint c unix endpointType)) (fst (getCosmosEndpoint c unix endpointType)) \<noteq> None"
  by (cases endpointType)
     (auto simp: getCosmosEndpoint_def Let_def firstIndex_Some split: option.splits)

lemma method_call_total:
  "\<exists>r. method_call c httpMethod unix prepare Do validator data now = Some r \<and> same_shape c (ret_client r)"
proof -
  let ?t = "if httpMethod = ''GET'' then EndpointType_ReadOnly else EndpointType_ReadWrite"
  obtain endpoint c' where g: "getCosmosEndpoint c unix ?t = (endpoint, c')"
    by (cases "getCosmosEndpoint c unix ?t")
  from getCosmosEndpoint_addressable[of c unix ?t] g have a: "deref c' endpoint \<noteq> None" by simp
  from getCosmosEndpoint_snd[of c unix ?t] g have c': "c' = purgeStaleEndpointUnavailability c unix"
    by simp
  have s: "same_shape c c'" unfolding c' by (rule purge_shape)
  show ?thesis
  proof (cases prepare)
    case (Some e)
    with g s show ?thesis by (simp add: method_call_def)
  next
    case None
    from do_loop_total[OF a] obtain r where r: "do_loop c' Do validator data endpoint now 0 0 0 = Some r"
      by blast
    from do_loop_shape[OF r] s have "same_shape c (ret_client r)" by (rule same_shape_trans[rotated])
    with r None g show ?thesis by (simp add: method_call_def do_def)
  qed
qed

lemma addressable_shape: "same_shape c c' \<Longrightarrow> addressable c x \<Longrightarrow> addressable c' x"
  by (cases x) (auto dest: same_shape_deref)

lemma perform_total:
  assumes "addressable c x"
  shows "\<exists>c'. perform c x = Some c' \<and> same_shape c c'"
proof (cases x)
  case (Quarantine endpoint now)
  with assms have "\<exists>c'. markEndpointUnavailable c now endpoint = Some c'"
    by (auto simp: markEndpointUnavailable_def split: option.splits)
  with Quarantine show ?thesis by (auto dest: mark_shape)
next
  case (Purge unix)
  then show ?thesis by (simp add: purge_shape)
next
  case (Select endpointType unix)
  then show ?thesis by (simp add: getCosmosEndpoint_snd purge_shape)
next
  case (Request httpMethod unix prepare Do validator data now)
  with method_call_total[of c httpMethod unix prepare Do validator data now] show ?thesis by auto
qed

lemma history_total:
  "\<forall>x\<in>set xs. addressable c x \<Longrightarrow> \<exists>c'. history c xs = Some c'"
proof (induction xs arbitrary: c)
  case Nil
  then show ?case by simp
next
  case (Cons x xs)
  from Cons.prems have "addressable c x" by simp
  from perform_total[OF this] obtain c1 where p: "perform c x = Some c1" and s: "same_shape c c1"
    by blast
  from Cons.prems s have "\<forall>x\<in>set xs. addressable c1 x" by (auto dest: addressable_shape)
  from Cons.IH[OF this] p show ?case by simp
qed

lemma example_do_503:
  "do (exampleClient 3) (answers 503) expect200 (None :: (string \<Rightarrow> go_error option \<times> unit) option)
      (ReadLocationsRef 0) 100 =
     Some \<lparr>ret_response = None, ret_err = Some (RequestError ''attempt++''), ret_data = None,
           attempts = 3, ret_client = quarantinedExample\<rparr>"
  by (simp add: do_def do_loop.simps answers_def answer_def expect200_def Let_def shouldRetry_def
      markEndpointUnavailable_def exampleClient_def quarantinedExample_def region_def word_sless_alt)

text \<open>
  Claim C3. \<open>markEndpointUnavailable\<close> does nothing to an endpoint flagged as the default
  one. Every history of quarantines, purges, selections and requests (failing or not)
  whose quarantines address an endpoint runs to its end, and it leaves the default
  endpoint of a client as it was, when that endpoint carries the flag: its
  \<open>IsUnavailable\<close> stays false.
\<close>

theorem default_endpoint_never_quarantined:
  "(deref c endpoint = Some e \<and> IsDefaultEndpoint e \<longrightarrow>
      markEndpointUnavailable c now endpoint = Some c) \<and>
   ((\<forall>x\<in>set xs. addressable c x) \<longrightarrow> (\<exists>c1. history c xs = Some c1)) \<and>
   (IsDefaultEndpoint (DefaultEndpoint c) \<and> \<not> IsUnavailable (DefaultEndpoint c) \<and>
    history c xs = Some c' \<longrightarrow>
      DefaultEndpoint c' = DefaultEndpoint c \<and> \<not> IsUnavailable (DefaultEndpoint c'))"
proof -
  have noop: "deref c endpoint = Some e \<and> IsDefaultEndpoint e \<longrightarrow>
      markEndpointUnavailable c now endpoint = Some c"
    by (simp add: markEndpointUnavailable_def)
  have runs: "(\<forall>x\<in>set xs. addressable c x) \<longrightarrow> (\<exists>c1. history c xs = Some c1)"
    using history_total[of xs c] by blast
  have kept: "IsDefaultEndpoint (DefaultEndpoint c) \<and> \<not> IsUnavailable (DefaultEndpoint c) \<and>
    history c xs = Some c' \<longrightarrow>
      DefaultEndpoint c' = DefaultEndpoint c \<and> \<not> IsUnavailable (DefaultEndpoint c')"
    by (auto dest: history_DefaultEndpoint)
  from noop runs kept show ?thesis by blast
qed

theorem default_endpoint_never_quarantined_witness:
  "deref quarantinedExample DefaultEndpointRef = Some (DefaultEndpoint quarantinedExample) \<and>
   IsDefaultEndpoint (DefaultEndpoint quarantinedExample) \<and>
   markEndpointUnavailable quarantinedExample 101 DefaultEndpointRef = Some quarantinedExample \<and>
   addressable (exampleClient 3) (Quarantine DefaultEndpointRef 101 :: unit operation) \<and>
   IsDefaultEndpoint (DefaultEndpoint (exampleClient 3)) \<and>
   \<not> IsUnavailable (DefaultEndpoint (exampleClient 3)) \<and>
   history (exampleClient 3) exampleHistory = Some quarantinedExample \<and>
   DefaultEndpoint quarantinedExample = DefaultEndpoint (exampleClient 3) \<and>
   \<not> IsUnavailable (DefaultEndpoint quarantinedExample)"
proof -
  have h1: "IsDefaultEndpoint (DefaultEndpoint (exampleClient 3))"
    by (simp add: exampleClient_def)
  have h2: "\<not> IsUnavailable (DefaultEndpoint (exampleClient 3))"
    by (simp add: exampleClient_def region_def)
  have d1: "deref quarantinedExample DefaultEndpointRef = Some (DefaultEndpoint quarantinedExample)"
    by simp
  have d2: "IsDefaultEndpoint (DefaultEndpoint quarantinedExample)"
    by (simp add: quarantinedExample_def exampleClient_def)
  from default_endpoint_never_quarantined
    [of quarantinedExample DefaultEndpointRef "DefaultEndpoint quarantinedExample" 101, THEN conjunct1] d1 d2
  have q1: "markEndpointUnavailable quarantinedExample 101 DefaultEndpointRef = Some quarantinedExample"
    by blast
  have a: "\<forall>x\<in>set exampleHistory. addressable (exampleClient 3) x"
    by (simp add: exampleHistory_def)
  have a1: "addressable (exampleClient 3) (Quarantine DefaultEndpointRef 101 :: unit operation)"
    by simp
  note t = default_endpoint_never_quarantined
    [of "exampleClient 3" DefaultEndpointRef _ _ exampleHistory, THEN conjunct2]
  from t [THEN conjunct1] a obtain c1 where c1: "history (exampleClient 3) exampleHistory = Some c1"
    by blast
  have p0: "purgeStaleEndpointUnavailability (exampleClient 3) (at_time 100) = exampleClient 3"
    by (simp add: at_time_const purge_fixed_time purgeOne_def exampleClient_def region_def)
  have g0: "getCosmosEndpoint (exampleClient 3) (at_time 100) EndpointType_ReadOnly =
      (ReadLocationsRef 0, exampleClient 3)"
    unfolding getCosmosEndpoint_def p0 Let_def by (simp add: exampleClient_def region_def)
  have m0: "method_call (exampleClient 3) ''GET'' (at_time 100) None (answers 503) expect200
      (None :: (string \<Rightarrow> go_error option \<times> unit) option) 100 =
     Some \<lparr>ret_response = None, ret_err = Some (RequestError ''attempt++''), ret_data = None,
           attempts = 3, ret_client = quarantinedExample\<rparr>"
    by (simp add: method_call_def g0 example_do_503)
  have p1: "purgeStaleEndpointUnavailability quarantinedExample (at_time 105) = quarantinedExample"
    by (simp add: at_time_const purge_fixed_time purgeOne_def quarantinedExample_def
        exampleClient_def region_def)
  have s1: "snd (getCosmosEndpoint quarantinedExample (at_time 105) EndpointType_ReadOnly) = quarantinedExample"
    by (simp add: getCosmosEndpoint_snd p1)
  have "history (exampleClient 3) exampleHistory = Some quarantinedExample"
    by (simp add: exampleHistory_def m0 q1 p1 s1)
  with c1 have h3: "history (exampleClient 3) exampleHistory = Some quarantinedExample" by simp
  from t [of quarantinedExample, THEN conjunct2] h1 h2 h3
  have "DefaultEndpoint quarantinedExample = DefaultEndpoint (exampleClient 3) \<and>
      \<not> IsUnavailable (DefaultEndpoint quarantinedExample)"
    by blast
  with h1 h2 d1 d2 q1 a1 h3 show ?thesis by blast
qed

section \<open>Properties of rediscovery\<close>

lemma preferredFirst_alt:
  "preferredFirst prefLoc locations =
     foldl (\<lambda>stored i.
              if EndpointName (locations ! i) = prefLoc
              then locations ! i # take i locations @ drop (Suc i) locations
              else stored)
       locations [0..<length locations]"
  by (simp add: preferredFirst_def cong: if_cong)

lemma reorder_no_match:
  "\<forall>j<n. EndpointName (locations ! j) \<noteq> prefLoc \<Longrightarrow>
     foldl (\<lambda>stored i.
              if EndpointName (locations ! i) = prefLoc
              then locations ! i # take i locations @ drop (Suc i) locations
              else stored) stored0 [0..<n] = stored0"
  by (induction n) simp_all

lemma reorder_one_match:
  assumes "k < n" and "EndpointName (locations ! k) = prefLoc"
    and "\<forall>j<n. j \<noteq> k \<longrightarrow> EndpointName (locations ! j) \<noteq> prefLoc"
  shows "foldl (\<lambda>stored i.
              if EndpointName (locations ! i) = prefLoc
              then locations ! i # take i locations @ drop (Suc i) locations
              else stored) stored0 [0..<n] =
         locations ! k # take k locations @ drop (Suc k) locations"
  using assms
proof (induction n)
  case 0
  then show ?case by simp
next
  case (Suc n)
  show ?case
  proof (cases "k = n")
    case True
    with Suc.prems show ?thesis by simp
  next
    case False
    with Suc.prems have "k < n" by simp
    moreover from Suc.prems(3) have "\<forall>j<n. j \<noteq> k \<longrightarrow> EndpointName (locations ! j) \<noteq> prefLoc"
      by simp
    moreover from Suc.prems(3) False have "EndpointName (locations ! n) \<noteq> prefLoc" by simp
    ultimately show ?thesis using Suc.IH Suc.prems(2) by simp
  qed
qed

lemma GetRegionalEndpoints_success:
  assumes "GetRegionalEndpoints c prepare expectStatusCode readJson Do now = Some (None, c')"
  shows "\<exists>k resp. Do k = Resp resp \<and> expectStatusCode 200 (StatusCode resp) \<and>
           fst (readJson (Body resp)) = None \<and>
           ReadLocations c' =
             preferredFirst (PreferredLocation (RegionalOptions (Config c)))
               (ReadableLocations (snd (readJson (Body resp)))) \<and>
           WriteLocations c' =
             preferredFirst (PreferredLocation (RegionalOptions (Config c)))
               (WritableLocations (snd (readJson (Body resp))))"
proof -
  from assms have p: "prepare = None"
    by (auto simp: GetRegionalEndpoints_def split: option.splits)
  from assms p obtain r where r: "do c Do (expectStatusCode 200) (Some readJson) DefaultEndpointRef now = Some r"
    and e: "ret_err r = None"
    by (auto simp: GetRegionalEndpoints_def split: option.splits)
  from do_loop_no_error[OF r[unfolded do_def] e] obtain k resp where
    k: "Do k = Resp resp" "expectStatusCode 200 (StatusCode resp)" "fst (readJson (Body resp)) = None"
      "ret_data r = Some (snd (readJson (Body resp)))" "ret_client r = c"
    by blast
  from assms p r e k(4,5) have
    "c' = c\<lparr>ReadLocations := preferredFirst (PreferredLocation (RegionalOptions (Config c)))
               (ReadableLocations (snd (readJson (Body resp)))),
            WriteLocations := preferredFirst (PreferredLocation (RegionalOptions (Config c)))
               (WritableLocations (snd (readJson (Body resp))))\<rparr>"
    by (simp add: GetRegionalEndpoints_def Let_def)
  with k(1,2,3) show ?thesis by auto
qed

lemma example_do_default_503:
  "do (exampleClient 3) (answers 503) (expectStatus 200) (Some decodeExample) DefaultEndpointRef 100 =
     Some \<lparr>ret_response = None, ret_err = Some (RequestError ''attempt++''), ret_data = None,
           attempts = 3, ret_client = exampleClient 3\<rparr>"
  by (simp add: do_def do_loop.simps answers_def answer_def expectStatus_def Let_def shouldRetry_def
      markEndpointUnavailable_def exampleClient_def region_def word_sless_alt)

lemma example_do_200:
  "do (exampleClient 3) (answers 200) (expectStatus 200) (Some decodeExample) DefaultEndpointRef 100 =
     Some \<lparr>ret_response = Some ''h'', ret_err = None,
           ret_data = Some \<lparr>ReadableLocations = [region ''east'', region ''west''],
             WritableLocations = [region ''east'']\<rparr>,
           attempts = 1, ret_client = exampleClient 3\<rparr>"
  by (simp add: do_def do_loop.simps answers_def answer_def expectStatus_def Let_def decodeExample_def)

text \<open>
  Claim C7. When exactly one entry of a discovered list carries the preferred location's
  name, at index \<open>k\<close>, the reordered list is that entry followed by the entries before
  \<open>k\<close> and the entries after \<open>k\<close>, in their order; when no entry carries the name, the list
  is unchanged. After a successful \<open>GetRegionalEndpoints\<close> the stored read and write lists
  are the reordered readable and writable lists decoded from the accepted response.
\<close>

theorem GetRegionalEndpoints_preferred_first:
  "(k < length locations \<and> EndpointName (locations ! k) = prefLoc \<and>
    (\<forall>j<length locations. j \<noteq> k \<longrightarrow> EndpointName (locations ! j) \<noteq> prefLoc) \<longrightarrow>
      preferredFirst prefLoc locations = locations ! k # take k locations @ drop (Suc k) locations) \<and>
   ((\<forall>j<length locations. EndpointName (locations ! j) \<noteq> prefLoc) \<longrightarrow>
      preferredFirst prefLoc locations = locations) \<and>
   (GetRegionalEndpoints c prepare expectStatusCode readJson Do now = Some (None, c') \<longrightarrow>
      (\<exists>n resp. Do n = Resp resp \<and> expectStatusCode 200 (StatusCode resp) \<and>
         ReadLocations c' =
           preferredFirst (PreferredLocation (RegionalOptions (Config c)))
             (ReadableLocations (snd (readJson (Body resp)))) \<and>
         WriteLocations c' =
           preferredFirst (PreferredLocation (RegionalOptions (Config c)))
             (WritableLocations (snd (readJson (Body resp))))))"
proof (intro conjI impI)
  assume "k < length locations \<and> EndpointName (locations ! k) = prefLoc \<and>
    (\<forall>j<length locations. j \<noteq> k \<longrightarrow> EndpointName (locations ! j) \<noteq> prefLoc)"
  then show "preferredFirst prefLoc locations = locations ! k # take k locations @ drop (Suc k) locations"
    unfolding preferredFirst_alt by (intro reorder_one_match) simp_all
next
  assume "\<forall>j<length locations. EndpointName (locations ! j) \<noteq> prefLoc"
  then show "preferredFirst prefLoc locations = locations"
    unfolding preferredFirst_alt by (rule reorder_no_match)
next
  assume "GetRegionalEndpoints c prepare expectStatusCode readJson Do now = Some (None, c')"
  from GetRegionalEndpoints_success[OF this]
  show "\<exists>n resp. Do n = Resp resp \<and> expectStatusCode 200 (StatusCode resp) \<and>
         ReadLocations c' =
           preferredFirst (PreferredLocation (RegionalOptions (Config c)))
             (ReadableLocations (snd (readJson (Body resp)))) \<and>
         WriteLocations c' =
           preferredFirst (PreferredLocation (RegionalOptions (Config c)))
             (WritableLocations (snd (readJson (Body resp))))"
    by blast
qed

theorem GetRegionalEndpoints_preferred_first_witness:
  "(1 :: nat) < length [region ''east'', region ''west''] \<and>
   EndpointName ([region ''east'', region ''west''] ! 1) = ''west'' \<and>
   preferredFirst ''west'' [region ''east'', region ''west''] = [region ''west'', region ''east''] \<and>
   preferredFirst ''west'' [region ''east''] = [region ''east''] \<and>
   GetRegionalEndpoints (exampleClient 3) None expectStatus decodeExample (answers 200) 100 =
     Some (None, (exampleClient 3)\<lparr>ReadLocations := [region ''west'', region ''east''],
                                   WriteLocations := [region ''east'']\<rparr>) \<and>
   (\<exists>n resp. answers 200 n = Resp resp \<and> expectStatus 200 (StatusCode resp) \<and>
      [region ''west'', region ''east''] =
        preferredFirst (PreferredLocation (RegionalOptions (Config (exampleClient 3))))
          (ReadableLocations (snd (decodeExample (Body resp)))))"
proof -
  let ?xs = "[region ''east'', region ''west'']"
  let ?c' = "(exampleClient 3)\<lparr>ReadLocations := [region ''west'', region ''east''],
                                   WriteLocations := [region ''east'']\<rparr>"
  have h1: "(1 :: nat) < length ?xs" by simp
  have h2: "EndpointName (?xs ! 1) = ''west''" by (simp add: region_def)
  have h3: "\<forall>j<length ?xs. j \<noteq> 1 \<longrightarrow> EndpointName (?xs ! j) \<noteq> ''west''"
    by (auto simp: region_def less_Suc_eq)
  from GetRegionalEndpoints_preferred_first [of 1 ?xs "''west''", THEN conjunct1] h1 h2 h3
  have r: "preferredFirst ''west'' ?xs = [region ''west'', region ''east'']"
    by simp
  have h4: "\<forall>j<length [region ''east'']. EndpointName ([region ''east''] ! j) \<noteq> ''west''"
    by (simp add: region_def)
  from GetRegionalEndpoints_preferred_first [of _ "[region ''east'']" "''west''", THEN conjunct2, THEN conjunct1] h4
  have w: "preferredFirst ''west'' [region ''east''] = [region ''east'']"
    by blast
  have g: "GetRegionalEndpoints (exampleClient 3) None expectStatus decodeExample (answers 200) 100 =
     Some (None, (exampleClient 3)\<lparr>ReadLocations := preferredFirst ''west'' ?xs,
                                   WriteLocations := preferredFirst ''west'' [region ''east'']\<rparr>)"
    by (simp add: GetRegionalEndpoints_def example_do_200 Let_def) (simp add: exampleClient_def)
  note g' = g[unfolded r w]
  from GetRegionalEndpoints_preferred_first
    [of _ _ _ "exampleClient 3" None expectStatus decodeExample "answers 200" 100 ?c',
     THEN conjunct2, THEN conjunct2] g'
  have "\<exists>n resp. answers 200 n = Resp resp \<and> expectStatus 200 (StatusCode resp) \<and>
      ReadLocations ?c' =
        preferredFirst (PreferredLocation (RegionalOptions (Config (exampleClient 3))))
          (ReadableLocations (snd (decodeExample (Body resp))))"
    by blast
  then have e: "\<exists>n resp. answers 200 n = Resp resp \<and> expectStatus 200 (StatusCode resp) \<and>
      [region ''west'', region ''east''] =
        preferredFirst (PreferredLocation (RegionalOptions (Config (exampleClient 3))))
          (ReadableLocations (snd (decodeExample (Body resp))))"
    by simp
  from h1 h2 r w g' e show ?thesis by blast
qed

lemma shouldRetry_default_registry:
  "shouldRetry c now st a DefaultEndpointRef = Some (b, c') \<Longrightarrow>
     ReadLocations c' = ReadLocations c \<and> WriteLocations c' = WriteLocations c \<and> Config c' = Config c \<and>
     (IsDefaultEndpoint (DefaultEndpoint c) \<longrightarrow> c' = c)"
  by (auto simp: shouldRetry_def markEndpointUnavailable_def split: if_splits)

lemma do_loop_default_registry:
  assumes "do_loop c Do validator data DefaultEndpointRef now a st n = Some r"
  shows "ReadLocations (ret_client r) = ReadLocations c \<and> WriteLocations (ret_client r) = WriteLocations c \<and>
     Config (ret_client r) = Config c \<and> (IsDefaultEndpoint (DefaultEndpoint c) \<longrightarrow> ret_client r = c)"
  using do_loop_client[OF assms] shouldRetry_default_registry[of c now _ _ False "ret_client r"]
  by auto

text \<open>
  Claim C8. \<open>GetRegionalEndpoints\<close> always returns. When it returns an error, the read and
  write lists (and the configuration) are as before the call, and the whole client is
  when the default endpoint carries its flag. When the discovery request fails, the error
  of \<open>do\<close> is the error returned. So the lists change only with a nil error, after a
  successful discovery response.
\<close>

theorem GetRegionalEndpoints_failure_keeps_registry:
  "(\<exists>res. GetRegionalEndpoints c prepare expectStatusCode readJson Do now = Some res) \<and>
   (GetRegionalEndpoints c prepare expectStatusCode readJson Do now = Some (Some e, c') \<longrightarrow>
      ReadLocations c' = ReadLocations c \<and> WriteLocations c' = WriteLocations c \<and>
      Config c' = Config c \<and> (IsDefaultEndpoint (DefaultEndpoint c) \<longrightarrow> c' = c)) \<and>
   (prepare = None \<and>
    do c Do (expectStatusCode 200) (Some readJson) DefaultEndpointRef now = Some r \<and>
    ret_err r = Some e \<longrightarrow>
      GetRegionalEndpoints c prepare expectStatusCode readJson Do now = Some (Some e, ret_client r))"
proof -
  have "\<exists>r. do c Do (expectStatusCode 200) (Some readJson) DefaultEndpointRef now = Some r"
    unfolding do_def by (rule do_loop_total) simp
  then have total: "\<exists>res. GetRegionalEndpoints c prepare expectStatusCode readJson Do now = Some res"
    by (auto simp: GetRegionalEndpoints_def Let_def split: option.splits)
  have kept: "ReadLocations c' = ReadLocations c \<and> WriteLocations c' = WriteLocations c \<and>
      Config c' = Config c \<and> (IsDefaultEndpoint (DefaultEndpoint c) \<longrightarrow> c' = c)"
    if g: "GetRegionalEndpoints c prepare expectStatusCode readJson Do now = Some (Some e, c')"
  proof (cases prepare)
    case (Some e')
    with g show ?thesis by (simp add: GetRegionalEndpoints_def)
  next
    case None
    with g obtain r where r: "do_loop c Do (expectStatusCode 200) (Some readJson) DefaultEndpointRef now 0 0 0 = Some r"
      and c': "c' = ret_client r"
      by (auto simp: GetRegionalEndpoints_def do_def Let_def split: option.splits)
    from do_loop_default_registry[OF r] c' show ?thesis by simp
  qed
  have surfaced: "GetRegionalEndpoints c prepare expectStatusCode readJson Do now = Some (Some e, ret_client r)"
    if "prepare = None \<and>
        do c Do (expectStatusCode 200) (Some readJson) DefaultEndpointRef now = Some r \<and>
        ret_err r = Some e"
    using that by (simp add: GetRegionalEndpoints_def)
  from total kept surfaced show ?thesis by blast
qed

theorem GetRegionalEndpoints_failure_keeps_registry_witness:
  "GetRegionalEndpoints (exampleClient 3) None expectStatus decodeExample (answers 503) 100 =
     Some (Some (RequestError ''attempt++''), exampleClient 3) \<and>
   IsDefaultEndpoint (DefaultEndpoint (exampleClient 3)) \<and>
   ReadLocations (exampleClient 3) = [region ''east'', region ''west''] \<and>
   WriteLocations (exampleClient 3) = [region ''east'']"
proof -
  note t = GetRegionalEndpoints_failure_keeps_registry
    [of "exampleClient 3" None expectStatus decodeExample "answers 503" 100
        "RequestError ''attempt++''" _
        "\<lparr>ret_response = None, ret_err = Some (RequestError ''attempt++''), ret_data = None,
           attempts = 3, ret_client = exampleClient 3\<rparr>"]
  from t [THEN conjunct2, THEN conjunct2] example_do_default_503
  have g: "GetRegionalEndpoints (exampleClient 3) None expectStatus decodeExample (answers 503) 100 =
     Some (Some (RequestError ''attempt++''), exampleClient 3)"
    by simp
  have h: "IsDefaultEndpoint (DefaultEndpoint (exampleClient 3))"
    by (simp add: exampleClient_def)
  from t [of "exampleClient 3", THEN conjunct2, THEN conjunct1] g
  have "ReadLocations (exampleClient 3) = ReadLocations (exampleClient 3)" by blast
  with g h show ?thesis by (simp add: exampleClient_def)
qed

end
